theory Spec2Isabelle
  imports Complex_Main
begin

section \<open>Numbers\<close>

text \<open>
  The engine computes with JavaScript numbers. They are idealised here as the reals:
  exact arithmetic, no rounding, no NaN and no infinities. Every comparison and every
  branch of the source is kept. Where the source divides, the model either keeps the
  source's own guard in front of the division or says in the text that the divisor may be
  zero; no theorem below rests on the value of a division by zero.
\<close>

section \<open>math/Vector3D.ts\<close>

text \<open>
  The fields \<open>x\<close>, \<open>y\<close>, \<open>z\<close> of the source are \<open>vx\<close>, \<open>vy\<close>, \<open>vz\<close> here, and the
  methods carry the prefix \<open>v\<close>, since Quaternion has fields and methods of the same names.
\<close>

record Vector3D =
  vx :: real
  vy :: real
  vz :: real

datatype error = Error string

definition vec :: "real \<Rightarrow> real \<Rightarrow> real \<Rightarrow> Vector3D" where
  "vec a b c = \<lparr>vx = a, vy = b, vz = c\<rparr>"

definition vzero :: Vector3D where
  "vzero = vec 0 0 0"

definition vadd :: "Vector3D \<Rightarrow> Vector3D \<Rightarrow> Vector3D" where
  "vadd u v = vec (vx u + vx v) (vy u + vy v) (vz u + vz v)"

definition vsubtract :: "Vector3D \<Rightarrow> Vector3D \<Rightarrow> Vector3D" where
  "vsubtract u v = vec (vx u - vx v) (vy u - vy v) (vz u - vz v)"

definition vmultiply :: "Vector3D \<Rightarrow> real \<Rightarrow> Vector3D" where
  "vmultiply u scalar = vec (vx u * scalar) (vy u * scalar) (vz u * scalar)"

definition vdivide :: "Vector3D \<Rightarrow> real \<Rightarrow> error + Vector3D" where
  "vdivide u scalar =
     (if scalar = 0 then Inl (Error ''Cannot divide by zero'')
      else Inr (vec (vx u / scalar) (vy u / scalar) (vz u / scalar)))"

definition vdot :: "Vector3D \<Rightarrow> Vector3D \<Rightarrow> real" where
  "vdot u v = vx u * vx v + vy u * vy v + vz u * vz v"

definition vcross :: "Vector3D \<Rightarrow> Vector3D \<Rightarrow> Vector3D" where
  "vcross u v = vec (vy u * vz v - vz u * vy v)
                    (vz u * vx v - vx u * vz v)
                    (vx u * vy v - vy u * vx v)"

definition vmagnitude :: "Vector3D \<Rightarrow> real" where
  "vmagnitude u = sqrt (vx u * vx u + vy u * vy u + vz u * vz u)"

definition vnormalize :: "Vector3D \<Rightarrow> error + Vector3D" where
  "vnormalize u =
     (let mag = vmagnitude u
      in if mag = 0 then Inr (vec 0 0 0) else vdivide u mag)"

text \<open>
  \<open>vnormalize\<close> never raises (lemma \<open>vnormalize_Inr\<close> below): its only call of
  \<open>vdivide\<close> is behind the test \<open>mag = 0\<close>. The physics code therefore reads the value.
\<close>

definition vnormalized :: "Vector3D \<Rightarrow> Vector3D" where
  "vnormalized u = projr (vnormalize u)"

definition vdistanceTo :: "Vector3D \<Rightarrow> Vector3D \<Rightarrow> real" where
  "vdistanceTo u v = vmagnitude (vsubtract u v)"

section \<open>math/Quaternion.ts\<close>

record Quaternion =
  qw :: real
  qx :: real
  qy :: real
  qz :: real

definition quat :: "real \<Rightarrow> real \<Rightarrow> real \<Rightarrow> real \<Rightarrow> Quaternion" where
  "quat a b c d = \<lparr>qw = a, qx = b, qy = c, qz = d\<rparr>"

definition qidentity :: Quaternion where
  "qidentity = quat 1 0 0 0"

definition qmultiply :: "Quaternion \<Rightarrow> Quaternion \<Rightarrow> Quaternion" where
  "qmultiply p q = quat
     (qw p * qw q - qx p * qx q - qy p * qy q - qz p * qz q)
     (qw p * qx q + qx p * qw q + qy p * qz q - qz p * qy q)
     (qw p * qy q - qx p * qz q + qy p * qw q + qz p * qx q)
     (qw p * qz q + qx p * qy q - qy p * qx q + qz p * qw q)"

definition qmagnitude :: "Quaternion \<Rightarrow> real" where
  "qmagnitude q = sqrt (qw q * qw q + qx q * qx q + qy q * qy q + qz q * qz q)"

definition qnormalize :: "Quaternion \<Rightarrow> Quaternion" where
  "qnormalize q =
     (let mag = qmagnitude q
      in if mag = 0 then quat 1 0 0 0
         else quat (qw q / mag) (qx q / mag) (qy q / mag) (qz q / mag))"

definition fromAxisAngle :: "Vector3D \<Rightarrow> real \<Rightarrow> Quaternion" where
  "fromAxisAngle axis angle =
     (let halfAngle = angle * 0.5;
          s = sin halfAngle;
          normalized = vnormalized axis
      in quat (cos halfAngle) (vx normalized * s) (vy normalized * s) (vz normalized * s))"

section \<open>physics/RigidBody.ts\<close>

record RigidBody =
  position :: Vector3D
  velocity :: Vector3D
  acceleration :: Vector3D
  rotation :: Quaternion
  angularVelocity :: Vector3D
  angularAcceleration :: Vector3D
  mass :: real
  inverseMass :: real
  restitution :: real
  friction :: real
  drag :: real
  angularDrag :: real
  isStatic :: bool
  isKinematic :: bool
  useGravity :: bool
  forces :: "Vector3D list"
  torques :: "Vector3D list"

text \<open>The constructor \<open>new RigidBody(mass, position)\<close>.\<close>

definition new_RigidBody :: "real \<Rightarrow> Vector3D \<Rightarrow> RigidBody" where
  "new_RigidBody m p =
     \<lparr>position = p, velocity = vzero, acceleration = vzero, rotation = qidentity,
      angularVelocity = vzero, angularAcceleration = vzero,
      mass = m, inverseMass = (if m > 0 then 1 / m else 0),
      restitution = 0.6, friction = 0.5, drag = 0.01, angularDrag = 0.05,
      isStatic = False, isKinematic = False, useGravity = True,
      forces = [], torques = []\<rparr>"

definition addForce :: "Vector3D \<Rightarrow> RigidBody \<Rightarrow> RigidBody" where
  "addForce force b = (if isStatic b then b else b\<lparr>forces := forces b @ [force]\<rparr>)"

definition addTorque :: "Vector3D \<Rightarrow> RigidBody \<Rightarrow> RigidBody" where
  "addTorque torque b = (if isStatic b then b else b\<lparr>torques := torques b @ [torque]\<rparr>)"

definition addForceAtPoint :: "Vector3D \<Rightarrow> Vector3D \<Rightarrow> RigidBody \<Rightarrow> RigidBody" where
  "addForceAtPoint force point b =
     (if isStatic b then b
      else let b1 = addForce force b;
               r = vsubtract point (position b1);
               torque = vcross r force
           in addTorque torque b1)"

definition setMass :: "real \<Rightarrow> RigidBody \<Rightarrow> RigidBody" where
  "setMass m b =
     (let b1 = b\<lparr>mass := m, inverseMass := (if m > 0 then 1 / m else 0)\<rparr>
      in if m = 0 then b1\<lparr>isStatic := True\<rparr> else b1)"

definition makeStatic :: "RigidBody \<Rightarrow> RigidBody" where
  "makeStatic b = b\<lparr>isStatic := True, inverseMass := 0,
                    velocity := vzero, angularVelocity := vzero\<rparr>"

definition makeKinematic :: "RigidBody \<Rightarrow> RigidBody" where
  "makeKinematic b = b\<lparr>isKinematic := True, inverseMass := 0\<rparr>"

definition makeDynamic :: "real \<Rightarrow> RigidBody \<Rightarrow> RigidBody" where
  "makeDynamic m b = setMass m (b\<lparr>isStatic := False, isKinematic := False\<rparr>)"

text \<open>
  \<open>integrate(deltaTime)\<close>. The two summing loops are folds from the zero vector, in the
  order of the lists.
\<close>

definition integrate :: "real \<Rightarrow> RigidBody \<Rightarrow> RigidBody" where
  "integrate deltaTime b =
     (if isStatic b then b
      else let netForce0 = foldl vadd vzero (forces b);
               netTorque0 = foldl vadd vzero (torques b);
               b1 = (if \<not> isKinematic b then
                       let dragForce = vmultiply (velocity b) (- drag b * vmagnitude (velocity b));
                           netForce = vadd netForce0 dragForce;
                           angularDragTorque = vmultiply (angularVelocity b)
                                (- angularDrag b * vmagnitude (angularVelocity b));
                           netTorque = vadd netTorque0 angularDragTorque
                       in b\<lparr>acceleration := vmultiply netForce (inverseMass b),
                            angularAcceleration := vmultiply netTorque (inverseMass b)\<rparr>
                     else b);
               b2 = b1\<lparr>velocity := vadd (velocity b1) (vmultiply (acceleration b1) deltaTime)\<rparr>;
               b3 = b2\<lparr>angularVelocity :=
                         vadd (angularVelocity b2) (vmultiply (angularAcceleration b2) deltaTime)\<rparr>;
               b4 = b3\<lparr>position := vadd (position b3) (vmultiply (velocity b3) deltaTime)\<rparr>;
               b5 = (if vmagnitude (angularVelocity b4) > 0 then
                       let angle = vmagnitude (angularVelocity b4) * deltaTime;
                           axis = vnormalized (angularVelocity b4);
                           deltaRotation = fromAxisAngle axis angle
                       in b4\<lparr>rotation := qnormalize (qmultiply (rotation b4) deltaRotation)\<rparr>
                     else b4)
           in b5\<lparr>forces := [], torques := []\<rparr>)"

text \<open>
  The operations that the mass invariant speaks of, as a datatype, and a body after a
  sequence of them.
\<close>

datatype body_op = SetMass real | MakeStatic | MakeKinematic | MakeDynamic real

fun apply_body_op :: "RigidBody \<Rightarrow> body_op \<Rightarrow> RigidBody" where
  "apply_body_op b (SetMass m) = setMass m b"
| "apply_body_op b MakeStatic = makeStatic b"
| "apply_body_op b MakeKinematic = makeKinematic b"
| "apply_body_op b (MakeDynamic m) = makeDynamic m b"

definition run_body_ops :: "RigidBody \<Rightarrow> body_op list \<Rightarrow> RigidBody" where
  "run_body_ops b ops = foldl apply_body_op b ops"

text \<open>
  A sequence of operations in which \<open>setMass\<close> is never called with a positive mass on a
  body that is static or kinematic at that moment.
\<close>

fun mass_calls_ok :: "RigidBody \<Rightarrow> body_op list \<Rightarrow> bool" where
  "mass_calls_ok b [] = True"
| "mass_calls_ok b (SetMass m # ops) =
     ((m > 0 \<longrightarrow> \<not> isStatic b \<and> \<not> isKinematic b) \<and> mass_calls_ok (setMass m b) ops)"
| "mass_calls_ok b (opr # ops) = mass_calls_ok (apply_body_op b opr) ops"

section \<open>physics/Collision.ts\<close>

text \<open>
  Bodies and colliders are objects with identity: a collider holds a reference to its
  body, a collision record holds references to two bodies, and the world's registries hold
  references. A reference is a number, and the objects live in two stores.
\<close>

type_synonym ref = nat

type_synonym body_store = "ref \<Rightarrow> RigidBody"

record Collision =
  bodyA :: ref
  bodyB :: ref
  contactPoint :: Vector3D
  contactNormal :: Vector3D
  penetrationDepth :: real

text \<open>
  The fields \<open>min\<close> and \<open>max\<close> of AABB are \<open>amin\<close> and \<open>amax\<close>, the field \<open>size\<close> of
  BoxCollider is \<open>bsize\<close>: the source's names are constants of HOL.
\<close>

record AABB =
  amin :: Vector3D
  amax :: Vector3D

definition intersects :: "AABB \<Rightarrow> AABB \<Rightarrow> bool" where
  "intersects this other =
     (vx (amin this) \<le> vx (amax other) \<and> vx (amax this) \<ge> vx (amin other) \<and>
      vy (amin this) \<le> vy (amax other) \<and> vy (amax this) \<ge> vy (amin other) \<and>
      vz (amin this) \<le> vz (amax other) \<and> vz (amax this) \<ge> vz (amin other))"

definition expand :: "AABB \<Rightarrow> real \<Rightarrow> AABB" where
  "expand this amount =
     (let expansion = vec amount amount amount
      in \<lparr>amin = vsubtract (amin this) expansion, amax = vadd (amax this) expansion\<rparr>)"

text \<open>The abstract class Collider and its two subclasses.\<close>

record Collider_fields =
  rigidbody :: ref
  isTrigger :: bool

record BoxCollider = Collider_fields +
  bsize :: Vector3D

record SphereCollider = Collider_fields +
  radius :: real

datatype Collider = Box BoxCollider | Sphere SphereCollider

type_synonym collider_store = "ref \<Rightarrow> Collider"

fun rigidbody_of :: "Collider \<Rightarrow> ref" where
  "rigidbody_of (Box b) = rigidbody b"
| "rigidbody_of (Sphere s) = rigidbody s"

definition box_getAABB :: "body_store \<Rightarrow> BoxCollider \<Rightarrow> AABB" where
  "box_getAABB bs this =
     (let halfSize = vmultiply (bsize this) 0.5
      in \<lparr>amin = vsubtract (position (bs (rigidbody this))) halfSize,
          amax = vadd (position (bs (rigidbody this))) halfSize\<rparr>)"

definition sphere_getAABB :: "body_store \<Rightarrow> SphereCollider \<Rightarrow> AABB" where
  "sphere_getAABB bs this =
     (let radiusVec = vec (radius this) (radius this) (radius this)
      in \<lparr>amin = vsubtract (position (bs (rigidbody this))) radiusVec,
          amax = vadd (position (bs (rigidbody this))) radiusVec\<rparr>)"

fun getAABB :: "body_store \<Rightarrow> Collider \<Rightarrow> AABB" where
  "getAABB bs (Box b) = box_getAABB bs b"
| "getAABB bs (Sphere s) = sphere_getAABB bs s"

definition box_checkBoxCollision ::
  "body_store \<Rightarrow> BoxCollider \<Rightarrow> BoxCollider \<Rightarrow> Collision option" where
  "box_checkBoxCollision bs this other =
     (let aabb1 = box_getAABB bs this;
          aabb2 = box_getAABB bs other
      in if \<not> intersects aabb1 aabb2 then None
         else
           let overlap = vec
                 (min (vx (amax aabb1)) (vx (amax aabb2)) - max (vx (amin aabb1)) (vx (amin aabb2)))
                 (min (vy (amax aabb1)) (vy (amax aabb2)) - max (vy (amin aabb1)) (vy (amin aabb2)))
                 (min (vz (amax aabb1)) (vz (amax aabb2)) - max (vz (amin aabb1)) (vz (amin aabb2)));
               (minOverlap1, normal1) =
                 (if vy overlap < vx overlap then (vy overlap, vec 0 1 0)
                  else (vx overlap, vec 1 0 0));
               (minOverlap, normal2) =
                 (if vz overlap < minOverlap1 then (vz overlap, vec 0 0 1)
                  else (minOverlap1, normal1));
               direction = vsubtract (position (bs (rigidbody other)))
                                     (position (bs (rigidbody this)));
               normal = (if vdot normal2 direction < 0 then vmultiply normal2 (- 1) else normal2);
               cp = vmultiply (vadd (position (bs (rigidbody this)))
                                    (position (bs (rigidbody other)))) 0.5
           in Some \<lparr>bodyA = rigidbody this, bodyB = rigidbody other,
                     contactPoint = cp, contactNormal = normal,
                     penetrationDepth = minOverlap\<rparr>)"

definition closestPoint :: "AABB \<Rightarrow> Vector3D \<Rightarrow> Vector3D" where
  "closestPoint aabb sphereCenter = vec
     (max (vx (amin aabb)) (min (vx sphereCenter) (vx (amax aabb))))
     (max (vy (amin aabb)) (min (vy sphereCenter) (vy (amax aabb))))
     (max (vz (amin aabb)) (min (vz sphereCenter) (vz (amax aabb))))"

definition box_checkSphereCollision ::
  "body_store \<Rightarrow> BoxCollider \<Rightarrow> SphereCollider \<Rightarrow> Collision option" where
  "box_checkSphereCollision bs this sphere =
     (let aabb = box_getAABB bs this;
          sphereCenter = position (bs (rigidbody sphere));
          cp = closestPoint aabb sphereCenter;
          distance = vdistanceTo sphereCenter cp
      in if distance > radius sphere then None
         else
           let normal = vnormalized (vsubtract sphereCenter cp);
               pd = radius sphere - distance
           in Some \<lparr>bodyA = rigidbody this, bodyB = rigidbody sphere,
                     contactPoint = cp, contactNormal = normal,
                     penetrationDepth = pd\<rparr>)"

definition sphere_checkSphereCollision ::
  "body_store \<Rightarrow> SphereCollider \<Rightarrow> SphereCollider \<Rightarrow> Collision option" where
  "sphere_checkSphereCollision bs this other =
     (let distance = vdistanceTo (position (bs (rigidbody this)))
                                 (position (bs (rigidbody other)));
          totalRadius = radius this + radius other
      in if distance \<ge> totalRadius then None
         else
           let normal = vnormalized (vsubtract (position (bs (rigidbody other)))
                                               (position (bs (rigidbody this))));
               pd = totalRadius - distance;
               cp = vadd (position (bs (rigidbody this)))
                         (vmultiply normal (radius this - pd * 0.5))
           in Some \<lparr>bodyA = rigidbody this, bodyB = rigidbody other,
                     contactPoint = cp, contactNormal = normal,
                     penetrationDepth = pd\<rparr>)"

text \<open>
  The two \<open>checkCollision\<close> methods. The \<open>instanceof\<close> tests are the case distinction on
  the datatype; the final \<open>return null\<close> of each is reached by no collider.
\<close>

definition box_checkCollision ::
  "body_store \<Rightarrow> BoxCollider \<Rightarrow> Collider \<Rightarrow> Collision option" where
  "box_checkCollision bs this other =
     (case other of
        Box b \<Rightarrow> box_checkBoxCollision bs this b
      | Sphere s \<Rightarrow> box_checkSphereCollision bs this s)"

definition sphere_checkCollision ::
  "body_store \<Rightarrow> SphereCollider \<Rightarrow> Collider \<Rightarrow> Collision option" where
  "sphere_checkCollision bs this other =
     (case other of
        Sphere s \<Rightarrow> sphere_checkSphereCollision bs this s
      | Box b \<Rightarrow>
          (case box_checkSphereCollision bs b this of
             Some collision \<Rightarrow>
               Some \<lparr>bodyA = bodyB collision, bodyB = bodyA collision,
                     contactPoint = contactPoint collision,
                     contactNormal = vmultiply (contactNormal collision) (- 1),
                     penetrationDepth = penetrationDepth collision\<rparr>
           | None \<Rightarrow> None))"

fun checkCollision :: "body_store \<Rightarrow> Collider \<Rightarrow> Collider \<Rightarrow> Collision option" where
  "checkCollision bs (Box b) other = box_checkCollision bs b other"
| "checkCollision bs (Sphere s) other = sphere_checkCollision bs s other"

section \<open>physics/PhysicsWorld.ts\<close>

record PhysicsWorld =
  gravity :: Vector3D
  rigidbodies :: "ref list"
  colliders :: "ref list"
  collisions :: "Collision list"
  timeStep :: real
  maxSubSteps :: nat
  accumulator :: real
  collisionIterations :: nat
  maxObjectsPerFrame :: real

definition new_PhysicsWorld :: PhysicsWorld where
  "new_PhysicsWorld =
     \<lparr>gravity = vec 0 9.81 0, rigidbodies = [], colliders = [], collisions = [],
      timeStep = 1 / 60, maxSubSteps = 5, accumulator = 0,
      collisionIterations = 8, maxObjectsPerFrame = 200\<rparr>"

definition addRigidBody :: "ref \<Rightarrow> PhysicsWorld \<Rightarrow> PhysicsWorld" where
  "addRigidBody r w =
     (if r \<notin> set (rigidbodies w) then w\<lparr>rigidbodies := rigidbodies w @ [r]\<rparr> else w)"

definition removeRigidBody :: "ref \<Rightarrow> PhysicsWorld \<Rightarrow> PhysicsWorld" where
  "removeRigidBody r w = w\<lparr>rigidbodies := remove1 r (rigidbodies w)\<rparr>"

text \<open>
  \<open>addCollider\<close>. The \<open>console.warn\<close> of the rejecting branch writes a diagnostic only and
  is not part of the state.
\<close>

definition addCollider :: "collider_store \<Rightarrow> ref \<Rightarrow> PhysicsWorld \<Rightarrow> PhysicsWorld" where
  "addCollider cs c w =
     (if c \<notin> set (colliders w) then
        if real (length (colliders w)) \<ge> maxObjectsPerFrame w then w
        else addRigidBody (rigidbody_of (cs c)) (w\<lparr>colliders := colliders w @ [c]\<rparr>)
      else w)"

definition removeCollider :: "ref \<Rightarrow> PhysicsWorld \<Rightarrow> PhysicsWorld" where
  "removeCollider c w = w\<lparr>colliders := remove1 c (colliders w)\<rparr>"

definition setGravity :: "Vector3D \<Rightarrow> PhysicsWorld \<Rightarrow> PhysicsWorld" where
  "setGravity g w = w\<lparr>gravity := g\<rparr>"

definition clear :: "PhysicsWorld \<Rightarrow> PhysicsWorld" where
  "clear w = w\<lparr>rigidbodies := [], colliders := [], collisions := []\<rparr>"

definition configureDenseScene :: "bool \<Rightarrow> PhysicsWorld \<Rightarrow> PhysicsWorld" where
  "configureDenseScene enable w =
     (if enable then w\<lparr>collisionIterations := 12, timeStep := 1 / 120, maxSubSteps := 8\<rparr>
      else w\<lparr>collisionIterations := 8, timeStep := 1 / 60, maxSubSteps := 5\<rparr>)"

definition setMaxObjects :: "real \<Rightarrow> PhysicsWorld \<Rightarrow> PhysicsWorld" where
  "setMaxObjects limit w = w\<lparr>maxObjectsPerFrame := max 10 limit\<rparr>"

text \<open>\<open>applyGravity\<close>: the loop over the registered bodies, in registration order.\<close>

definition applyGravity :: "PhysicsWorld \<Rightarrow> body_store \<Rightarrow> body_store" where
  "applyGravity w bs =
     foldl (\<lambda>st r.
              if useGravity (st r) \<and> \<not> isStatic (st r) \<and> \<not> isKinematic (st r) then
                let gravityForce = vmultiply (gravity w) (mass (st r))
                in st(r := addForce gravityForce (st r))
              else st)
           bs (rigidbodies w)"

definition integrateAll :: "PhysicsWorld \<Rightarrow> real \<Rightarrow> body_store \<Rightarrow> body_store" where
  "integrateAll w deltaTime bs =
     foldl (\<lambda>st r. st(r := integrate deltaTime (st r))) bs (rigidbodies w)"

text \<open>
  \<open>detectCollisions\<close>. \<open>detect_pair\<close> is the body of the inner loop for one pair of
  colliders, \<open>detect_row\<close> the inner loop over \<open>j\<close>, \<open>detect\<close> the outer loop over \<open>i\<close>;
  the collisions are appended in the order the source pushes them.
\<close>

definition detect_pair ::
  "collider_store \<Rightarrow> body_store \<Rightarrow> ref \<Rightarrow> ref \<Rightarrow> Collision option" where
  "detect_pair cs bs i j =
     (let colliderA = cs i;
          colliderB = cs j
      in if isStatic (bs (rigidbody_of colliderA)) \<and> isStatic (bs (rigidbody_of colliderB))
         then None
         else
           let aabbA = expand (getAABB bs colliderA) 0.01;
               aabbB = expand (getAABB bs colliderB) 0.01
           in if \<not> intersects aabbA aabbB then None
              else (case checkCollision bs colliderA colliderB of
                      Some collision \<Rightarrow>
                        if penetrationDepth collision > 0.001 then Some collision else None
                    | None \<Rightarrow> None))"

fun detect_row :: "collider_store \<Rightarrow> body_store \<Rightarrow> ref \<Rightarrow> ref list \<Rightarrow> Collision list" where
  "detect_row cs bs i [] = []"
| "detect_row cs bs i (j # js) =
     (case detect_pair cs bs i j of Some collision \<Rightarrow> [collision] | None \<Rightarrow> [])
     @ detect_row cs bs i js"

fun detect :: "collider_store \<Rightarrow> body_store \<Rightarrow> ref list \<Rightarrow> Collision list" where
  "detect cs bs [] = []"
| "detect cs bs (i # rest) = detect_row cs bs i rest @ detect cs bs rest"

definition detectCollisions ::
  "collider_store \<Rightarrow> body_store \<Rightarrow> PhysicsWorld \<Rightarrow> PhysicsWorld" where
  "detectCollisions cs bs w = w\<lparr>collisions := detect cs bs (colliders w)\<rparr>"

definition separateObjects ::
  "ref \<Rightarrow> ref \<Rightarrow> Vector3D \<Rightarrow> real \<Rightarrow> body_store \<Rightarrow> body_store" where
  "separateObjects a b normal penetration bs =
     (let totalInverseMass = inverseMass (bs a) + inverseMass (bs b)
      in if totalInverseMass = 0 then bs
         else
           let separationPercent = 0.9;
               slop = 0.005;
               correctionMagnitude =
                 max (penetration - slop) 0 / totalInverseMass * separationPercent;
               correction = vmultiply normal correctionMagnitude;
               bs1 = (if \<not> isStatic (bs a) then
                        bs(a := (bs a)\<lparr>position :=
                              vsubtract (position (bs a))
                                        (vmultiply correction (inverseMass (bs a)))\<rparr>)
                      else bs)
           in if \<not> isStatic (bs1 b) then
                bs1(b := (bs1 b)\<lparr>position :=
                      vadd (position (bs1 b)) (vmultiply correction (inverseMass (bs1 b)))\<rparr>)
              else bs1)"

text \<open>
  \<open>applyFriction\<close>. The divisor \<open>inverseMass a + inverseMass b\<close> is not tested by the
  source and may be zero.
\<close>

definition applyFriction ::
  "ref \<Rightarrow> ref \<Rightarrow> Vector3D \<Rightarrow> Vector3D \<Rightarrow> real \<Rightarrow> body_store \<Rightarrow> body_store" where
  "applyFriction a b normal relativeVelocity normalImpulse bs =
     (let tangent = vsubtract relativeVelocity
                      (vmultiply normal (vdot relativeVelocity normal))
      in if vmagnitude tangent < 1 / 1000000 then bs
         else
           let tangentDirection = vnormalized tangent;
               mu = sqrt (friction (bs a) * friction (bs b));
               frictionImpulse0 = - vdot relativeVelocity tangentDirection
                                    / (inverseMass (bs a) + inverseMass (bs b));
               maxFriction = \<bar>normalImpulse\<bar> * mu;
               frictionImpulse = max (- maxFriction) (min frictionImpulse0 maxFriction);
               frictionVector = vmultiply tangentDirection frictionImpulse;
               bs1 = (if \<not> isStatic (bs a) then
                        bs(a := (bs a)\<lparr>velocity :=
                              vsubtract (velocity (bs a))
                                        (vmultiply frictionVector (inverseMass (bs a)))\<rparr>)
                      else bs)
           in if \<not> isStatic (bs1 b) then
                bs1(b := (bs1 b)\<lparr>velocity :=
                      vadd (velocity (bs1 b)) (vmultiply frictionVector (inverseMass (bs1 b)))\<rparr>)
              else bs1)"

text \<open>
  \<open>resolveCollision\<close> returns the new store and the boolean of the source. The divisor of
  \<open>j\<close> is not tested by the source and may be zero.
\<close>

definition resolveCollision :: "Collision \<Rightarrow> body_store \<Rightarrow> body_store \<times> bool" where
  "resolveCollision collision bs =
     (let a = bodyA collision;
          b = bodyB collision;
          normal = contactNormal collision;
          pd = penetrationDepth collision
      in if isStatic (bs a) \<and> isStatic (bs b) then (bs, False)
         else if pd \<le> 0.001 then (bs, False)
         else
           let bs1 = separateObjects a b normal pd bs;
               relativeVelocity = vsubtract (velocity (bs1 b)) (velocity (bs1 a));
               velocityAlongNormal = vdot relativeVelocity normal
           in if velocityAlongNormal > 0 then (bs1, False)
              else
                let e = min (restitution (bs1 a)) (restitution (bs1 b));
                    j = - (1 + e) * velocityAlongNormal
                          / (inverseMass (bs1 a) + inverseMass (bs1 b));
                    impulse = vmultiply normal j;
                    bs2 = (if \<not> isStatic (bs1 a) then
                             bs1(a := (bs1 a)\<lparr>velocity :=
                                   vsubtract (velocity (bs1 a))
                                             (vmultiply impulse (inverseMass (bs1 a)))\<rparr>)
                           else bs1);
                    bs3 = (if \<not> isStatic (bs2 b) then
                             bs2(b := (bs2 b)\<lparr>velocity :=
                                   vadd (velocity (bs2 b))
                                        (vmultiply impulse (inverseMass (bs2 b)))\<rparr>)
                           else bs2)
                in (applyFriction a b normal relativeVelocity j bs3, True))"

text \<open>
  \<open>resolveCollisions\<close>. \<open>resolve_all\<close> is the inner loop over the collision list with its
  flag \<open>hasCollisions\<close>; \<open>resolve_passes\<close> is the outer loop over \<open>iteration\<close>. The loop
  writes one field of the world, \<open>collisions\<close>, which is threaded as a value; it reads
  \<open>collisionIterations\<close> and \<open>colliders\<close>, which it never writes.
\<close>

fun resolve_all :: "Collision list \<Rightarrow> body_store \<Rightarrow> bool \<Rightarrow> body_store \<times> bool" where
  "resolve_all [] bs hasCollisions = (bs, hasCollisions)"
| "resolve_all (collision # rest) bs hasCollisions =
     (let (bs1, resolved) = resolveCollision collision bs
      in resolve_all rest bs1 (if resolved then True else hasCollisions))"

function resolve_passes ::
  "collider_store \<Rightarrow> ref list \<Rightarrow> nat \<Rightarrow> nat \<Rightarrow> Collision list \<Rightarrow> body_store
   \<Rightarrow> Collision list \<times> body_store" where
  "resolve_passes cs cols iterations iteration cl bs =
     (if iteration < iterations then
        let (bs1, hasCollisions) = resolve_all cl bs False
        in if \<not> hasCollisions then (cl, bs1)
           else if iteration < iterations - 1 then
             resolve_passes cs cols iterations (Suc iteration) (detect cs bs1 cols) bs1
           else resolve_passes cs cols iterations (Suc iteration) cl bs1
      else (cl, bs))"
  by pat_completeness auto
termination
  by (relation "measure (\<lambda>(cs, cols, iterations, iteration, cl, bs). iterations - iteration)")
     auto

declare resolve_passes.simps [simp del]

definition resolveCollisions ::
  "collider_store \<Rightarrow> PhysicsWorld \<Rightarrow> body_store \<Rightarrow> PhysicsWorld \<times> body_store" where
  "resolveCollisions cs w bs =
     (let (cl, bs1) = resolve_passes cs (colliders w) (collisionIterations w) 0 (collisions w) bs
      in (w\<lparr>collisions := cl\<rparr>, bs1))"

definition fixedUpdate ::
  "collider_store \<Rightarrow> real \<Rightarrow> PhysicsWorld \<Rightarrow> body_store \<Rightarrow> PhysicsWorld \<times> body_store" where
  "fixedUpdate cs deltaTime w bs =
     (let bs1 = applyGravity w bs;
          bs2 = integrateAll w deltaTime bs1;
          w1 = detectCollisions cs bs2 w
      in resolveCollisions cs w1 bs2)"

text \<open>
  \<open>step\<close>. \<open>sub_update\<close> is the body of the while loop, \<open>step_loop\<close> the loop with its
  counter \<open>subSteps\<close>, which it returns beside the state.
\<close>

definition sub_update ::
  "collider_store \<Rightarrow> PhysicsWorld \<times> body_store \<Rightarrow> PhysicsWorld \<times> body_store" where
  "sub_update cs st =
     (let (w1, bs1) = fixedUpdate cs (timeStep (fst st)) (fst st) (snd st)
      in (w1\<lparr>accumulator := accumulator w1 - timeStep w1\<rparr>, bs1))"

function step_loop ::
  "collider_store \<Rightarrow> PhysicsWorld \<times> body_store \<Rightarrow> nat \<Rightarrow> (PhysicsWorld \<times> body_store) \<times> nat"
  where
  "step_loop cs st subSteps =
     (if accumulator (fst st) \<ge> timeStep (fst st) \<and> subSteps < maxSubSteps (fst st)
      then step_loop cs (sub_update cs st) (Suc subSteps)
      else (st, subSteps))"
  by pat_completeness auto
termination
proof (relation "measure (\<lambda>(cs, st, subSteps). maxSubSteps (fst st) - subSteps)")
  show "wf (measure (\<lambda>(cs, st, subSteps). maxSubSteps (fst st) - subSteps))"
    by simp
next
  fix cs :: collider_store and st :: "PhysicsWorld \<times> body_store" and subSteps :: nat
  assume run: "timeStep (fst st) \<le> accumulator (fst st) \<and> subSteps < maxSubSteps (fst st)"
  have "maxSubSteps (fst (sub_update cs st)) = maxSubSteps (fst st)"
    by (simp add: sub_update_def fixedUpdate_def resolveCollisions_def detectCollisions_def
          Let_def split: prod.splits)
  with run show "((cs, sub_update cs st, Suc subSteps), (cs, st, subSteps))
        \<in> measure (\<lambda>(cs, st, subSteps). maxSubSteps (fst st) - subSteps)"
    by auto
qed

declare step_loop.simps [simp del]

definition step ::
  "collider_store \<Rightarrow> real \<Rightarrow> PhysicsWorld \<times> body_store \<Rightarrow> PhysicsWorld \<times> body_store" where
  "step cs deltaTime st =
     fst (step_loop cs ((fst st)\<lparr>accumulator := accumulator (fst st) + deltaTime\<rparr>, snd st) 0)"

section \<open>Predicates used in the proofs\<close>

text \<open>
  Two invariants of a body's mass fields: what a zero inverse mass means, and that a
  static or kinematic body has inverse mass zero.
\<close>

definition mass_inv :: "RigidBody \<Rightarrow> bool" where
  "mass_inv b \<longleftrightarrow>
     (inverseMass b = 0 \<longrightarrow> isStatic b \<or> isKinematic b \<or> mass b \<le> 0) \<and>
     (mass b \<le> 0 \<longrightarrow> inverseMass b = 0)"

definition flags_inv :: "RigidBody \<Rightarrow> bool" where
  "flags_inv b \<longleftrightarrow> (isStatic b \<or> isKinematic b \<longrightarrow> inverseMass b = 0)"

section \<open>Registering a list of colliders\<close>

text \<open>The calls \<open>addCollider\<close> of a caller that registers a list of colliders in order.\<close>

fun addColliders :: "collider_store \<Rightarrow> ref list \<Rightarrow> PhysicsWorld \<Rightarrow> PhysicsWorld" where
  "addColliders cs [] w = w"
| "addColliders cs (c # rest) w = addColliders cs rest (addCollider cs c w)"

section \<open>Example scenes for colliders\<close>

text \<open>
  A box of size 2 at the origin (body 0) and a sphere of radius \<open>r\<close> centred at
  \<open>(2, 0, 0)\<close> (body 1): the closest point of the box is \<open>(1, 0, 0)\<close>, at distance 1.
\<close>

definition demo_bodies :: body_store where
  "demo_bodies = (\<lambda>r. new_RigidBody 1 vzero)(Suc 0 := new_RigidBody 1 (vec 2 0 0))"

definition demo_box :: BoxCollider where
  "demo_box = \<lparr>rigidbody = 0, isTrigger = False, bsize = vec 2 2 2\<rparr>"

definition demo_sphere :: "real \<Rightarrow> SphereCollider" where
  "demo_sphere r = \<lparr>rigidbody = Suc 0, isTrigger = False, radius = r\<rparr>"

text \<open>
  A store in which collider \<open>c\<close> is a box on body \<open>c + 100\<close>, and a world whose cap
  was set with \<open>setMaxObjects 3\<close>.
\<close>

definition demo_colliders :: collider_store where
  "demo_colliders = (\<lambda>c. Box \<lparr>rigidbody = c + 100, isTrigger = False, bsize = vec 1 1 1\<rparr>)"

definition demo_world :: PhysicsWorld where
  "demo_world = setMaxObjects 3 new_PhysicsWorld"

section \<open>Applying forces before a step\<close>

text \<open>The three calls by which a caller applies forces and torques to a body.\<close>

datatype force_op = AddForce Vector3D | AddForceAtPoint Vector3D Vector3D | AddTorque Vector3D

fun apply_force_op :: "RigidBody \<Rightarrow> force_op \<Rightarrow> RigidBody" where
  "apply_force_op b (AddForce f) = addForce f b"
| "apply_force_op b (AddForceAtPoint f p) = addForceAtPoint f p b"
| "apply_force_op b (AddTorque t) = addTorque t b"

section \<open>Example scenes for the simulation step\<close>

text \<open>
  Two bodies of mass 1, body 0 at rest at the origin and body 1 at \<open>(1, 0, 0)\<close> with
  velocity \<open>v\<close>, and a contact between them with normal \<open>(1, 0, 0)\<close> from body 0 to
  body 1 and penetration depth 0.105.
\<close>

definition pair_bodies :: "Vector3D \<Rightarrow> body_store" where
  "pair_bodies v =
     (\<lambda>r. new_RigidBody 1 vzero)(Suc 0 := (new_RigidBody 1 (vec 1 0 0))\<lparr>velocity := v\<rparr>)"

definition pair_contact :: Collision where
  "pair_contact = \<lparr>bodyA = 0, bodyB = Suc 0, contactPoint = vec (1 / 2) 0 0,
                    contactNormal = vec 1 0 0, penetrationDepth = 21 / 200\<rparr>"

text \<open>
  A world with gravity \<open>(0, 10, 0)\<close> in which body 0 is registered without a collider,
  beside collider 5 on body 105; every body is a fresh body of mass 1 at the origin.
\<close>

definition fall_world :: PhysicsWorld where
  "fall_world =
     setGravity (vec 0 10 0) (addRigidBody 0 (addCollider demo_colliders 5 new_PhysicsWorld))"

definition fall_bodies :: body_store where
  "fall_bodies = (\<lambda>r. new_RigidBody 1 vzero)"

text \<open>
  A world with two overlapping boxes, collider 0 on the static body 100 and collider 1 on
  the dynamic body 101.
\<close>

definition ground_world :: PhysicsWorld where
  "ground_world = addCollider demo_colliders 1 (addCollider demo_colliders 0 new_PhysicsWorld)"

definition ground_bodies :: body_store where
  "ground_bodies = (\<lambda>r. new_RigidBody 1 vzero)(100 := makeStatic (new_RigidBody 1 vzero))"

section \<open>Vectors and quaternions\<close>

lemma vnormalize_Inr: "vnormalize u = Inr (vnormalized u)"
  by (simp add: vnormalized_def vnormalize_def vdivide_def Let_def)

text \<open>
  Claim C9. Dividing a vector by the scalar zero raises the error, and that is the only
  way \<open>vdivide\<close> fails; \<open>vnormalize\<close> never fails, and on a vector of magnitude zero it
  returns the zero vector; \<open>qnormalize\<close> on a quaternion of magnitude zero returns the
  identity quaternion.
\<close>

theorem divide_by_zero_only_failure:
  "vdivide v 0 = Inl (Error ''Cannot divide by zero'')
   \<and> (s \<noteq> 0 \<longrightarrow> vdivide v s = Inr (vec (vx v / s) (vy v / s) (vz v / s)))
   \<and> (\<exists>r. vnormalize u = Inr r)
   \<and> (vmagnitude u = 0 \<longrightarrow> vnormalize u = Inr vzero)
   \<and> (qmagnitude q = 0 \<longrightarrow> qnormalize q = qidentity)"
  by (simp add: vdivide_def vnormalize_def vzero_def qnormalize_def qidentity_def Let_def)

theorem divide_by_zero_only_failure_witness:
  "vdivide (vec 1 2 3) 0 = Inl (Error ''Cannot divide by zero'')
   \<and> vdivide (vec 1 2 3) 2 = Inr (vec (1 / 2) 1 (3 / 2))
   \<and> vmagnitude vzero = 0 \<and> vnormalize vzero = Inr vzero
   \<and> qmagnitude (quat 0 0 0 0) = 0 \<and> qnormalize (quat 0 0 0 0) = qidentity"
  using divide_by_zero_only_failure [of "vec 1 2 3" 2 vzero "quat 0 0 0 0"]
  by (simp add: vmagnitude_def vzero_def vec_def qmagnitude_def quat_def)

section \<open>The mass fields of a body\<close>

lemma mass_inv_new: "mass_inv (new_RigidBody m p)"
  by (simp add: mass_inv_def new_RigidBody_def)

lemma flags_inv_new: "flags_inv (new_RigidBody m p)"
  by (simp add: flags_inv_def new_RigidBody_def)

lemma mass_inv_op: "mass_inv b \<Longrightarrow> mass_inv (apply_body_op b opr)"
  by (cases opr)
     (auto simp: mass_inv_def setMass_def makeStatic_def makeKinematic_def makeDynamic_def
        Let_def)

lemma mass_inv_run: "mass_inv b \<Longrightarrow> mass_inv (foldl apply_body_op b ops)"
  by (induction ops arbitrary: b) (simp_all add: mass_inv_op)

lemma flags_inv_op:
  "flags_inv b \<Longrightarrow> mass_calls_ok b (opr # ops) \<Longrightarrow>
   flags_inv (apply_body_op b opr) \<and> mass_calls_ok (apply_body_op b opr) ops"
  by (cases opr)
     (auto simp: flags_inv_def setMass_def makeStatic_def makeKinematic_def makeDynamic_def
        Let_def)

lemma flags_inv_run:
  "flags_inv b \<Longrightarrow> mass_calls_ok b ops \<Longrightarrow> flags_inv (foldl apply_body_op b ops)"
proof (induction ops arbitrary: b)
  case Nil
  then show ?case by simp
next
  case (Cons opr ops)
  from flags_inv_op [OF Cons.prems]
  have "flags_inv (foldl apply_body_op (apply_body_op b opr) ops)"
    by (intro Cons.IH) simp_all
  then show ?case by simp
qed

text \<open>
  Claim C1, as amended. For a body made by the constructor and taken through any sequence
  of \<open>setMass\<close>, \<open>makeStatic\<close>, \<open>makeKinematic\<close> and \<open>makeDynamic\<close>: a zero inverse
  mass implies that the body is static or kinematic or has a mass that is not positive; a
  mass that is not positive implies a zero inverse mass; and when \<open>setMass\<close> was never
  called with a positive mass on a body static or kinematic at that moment, the inverse
  mass is zero exactly when the body is static or kinematic or its mass is not positive.
\<close>

theorem inverseMass_zero_characterised:
  "(inverseMass (run_body_ops (new_RigidBody m p) ops) = 0 \<longrightarrow>
      isStatic (run_body_ops (new_RigidBody m p) ops)
      \<or> isKinematic (run_body_ops (new_RigidBody m p) ops)
      \<or> mass (run_body_ops (new_RigidBody m p) ops) \<le> 0)
   \<and> (mass (run_body_ops (new_RigidBody m p) ops) \<le> 0 \<longrightarrow>
        inverseMass (run_body_ops (new_RigidBody m p) ops) = 0)
   \<and> (mass_calls_ok (new_RigidBody m p) ops \<longrightarrow>
        (inverseMass (run_body_ops (new_RigidBody m p) ops) = 0 \<longleftrightarrow>
           isStatic (run_body_ops (new_RigidBody m p) ops)
           \<or> isKinematic (run_body_ops (new_RigidBody m p) ops)
           \<or> mass (run_body_ops (new_RigidBody m p) ops) \<le> 0))"
proof -
  let ?b = "run_body_ops (new_RigidBody m p) ops"
  have a: "mass_inv ?b"
    unfolding run_body_ops_def by (rule mass_inv_run [OF mass_inv_new])
  have b: "flags_inv ?b" if "mass_calls_ok (new_RigidBody m p) ops"
    unfolding run_body_ops_def by (rule flags_inv_run [OF flags_inv_new that])
  from a b show ?thesis
    unfolding mass_inv_def flags_inv_def by blast
qed

theorem inverseMass_zero_characterised_witness:
  "inverseMass (run_body_ops (new_RigidBody 2 vzero) [MakeKinematic, MakeDynamic 4, SetMass 0]) = 0
   \<and> isStatic (run_body_ops (new_RigidBody 2 vzero) [MakeKinematic, MakeDynamic 4, SetMass 0])
   \<and> mass (run_body_ops (new_RigidBody 2 vzero) [MakeKinematic, MakeDynamic 4, SetMass 0]) \<le> 0
   \<and> mass_calls_ok (new_RigidBody 2 vzero) [MakeKinematic, MakeDynamic 4, SetMass 0]"
  using inverseMass_zero_characterised
          [of 2 vzero "[MakeKinematic, MakeDynamic 4, SetMass 0]"]
  by (simp add: run_body_ops_def new_RigidBody_def makeKinematic_def makeDynamic_def
        setMass_def Let_def)

text \<open>
  Claim C1 as stated fails in both directions: a kinematic body and a body constructed
  with mass 0 have inverse mass zero and are not static; a static body given the mass 5
  by \<open>setMass\<close> stays static with inverse mass 1/5.
\<close>

theorem inverseMass_iff_isStatic_counterexample:
  "\<not> (inverseMass (run_body_ops (new_RigidBody 1 vzero) [MakeKinematic]) = 0
        \<longleftrightarrow> isStatic (run_body_ops (new_RigidBody 1 vzero) [MakeKinematic]))
   \<and> \<not> (inverseMass (run_body_ops (new_RigidBody 0 vzero) []) = 0
        \<longleftrightarrow> isStatic (run_body_ops (new_RigidBody 0 vzero) []))
   \<and> \<not> (inverseMass (run_body_ops (new_RigidBody 1 vzero) [MakeStatic, SetMass 5]) = 0
        \<longleftrightarrow> isStatic (run_body_ops (new_RigidBody 1 vzero) [MakeStatic, SetMass 5]))"
  by (simp add: run_body_ops_def new_RigidBody_def makeKinematic_def makeStatic_def
        setMass_def Let_def)

section \<open>Narrow phase between a box and a sphere\<close>

lemma demo_box_sphere:
  "box_checkSphereCollision demo_bodies demo_box (demo_sphere r) =
     (if 1 > r then None
      else Some \<lparr>bodyA = 0, bodyB = Suc 0, contactPoint = vec 1 0 0,
                 contactNormal = vec 1 0 0, penetrationDepth = r - 1\<rparr>)"
  by (simp add: box_checkSphereCollision_def box_getAABB_def
        closestPoint_def vdistanceTo_def vmagnitude_def vsubtract_def vadd_def vmultiply_def
        vnormalized_def vnormalize_def vdivide_def
        demo_bodies_def demo_box_def demo_sphere_def new_RigidBody_def vzero_def vec_def Let_def)

lemma demo_distance:
  "vdistanceTo (position (demo_bodies (rigidbody (demo_sphere r))))
     (closestPoint (box_getAABB demo_bodies demo_box)
        (position (demo_bodies (rigidbody (demo_sphere r))))) = 1"
  by (simp add: box_getAABB_def
        closestPoint_def vdistanceTo_def vmagnitude_def vsubtract_def vadd_def vmultiply_def
        demo_bodies_def demo_box_def demo_sphere_def new_RigidBody_def vzero_def vec_def Let_def)

text \<open>
  Claim C4. \<open>sphere.checkCollision(box)\<close> reports a collision exactly when
  \<open>box.checkCollision(sphere)\<close> does; the two records have the same penetration depth,
  the same contact point, the two bodies swapped, and contact normals that are each
  other's negation, hence of equal magnitude.
\<close>

theorem sphere_box_order_symmetry:
  "(checkCollision bs (Sphere s) (Box b) = None \<longleftrightarrow> checkCollision bs (Box b) (Sphere s) = None)
   \<and> (\<forall>c. checkCollision bs (Box b) (Sphere s) = Some c \<longrightarrow>
          (\<exists>c'. checkCollision bs (Sphere s) (Box b) = Some c'
             \<and> penetrationDepth c' = penetrationDepth c
             \<and> bodyA c' = bodyB c \<and> bodyB c' = bodyA c
             \<and> bodyA c = rigidbody b \<and> bodyB c = rigidbody s
             \<and> contactPoint c' = contactPoint c
             \<and> vx (contactNormal c') = - vx (contactNormal c)
             \<and> vy (contactNormal c') = - vy (contactNormal c)
             \<and> vz (contactNormal c') = - vz (contactNormal c)
             \<and> vmagnitude (contactNormal c') = vmagnitude (contactNormal c)))"
  by (auto simp: box_checkCollision_def sphere_checkCollision_def box_checkSphereCollision_def
        Let_def vmultiply_def vec_def vmagnitude_def split: option.splits)

theorem sphere_box_order_symmetry_witness:
  "checkCollision demo_bodies (Box demo_box) (Sphere (demo_sphere 2)) =
     Some \<lparr>bodyA = 0, bodyB = Suc 0, contactPoint = vec 1 0 0,
            contactNormal = vec 1 0 0, penetrationDepth = 1\<rparr>
   \<and> checkCollision demo_bodies (Sphere (demo_sphere 2)) (Box demo_box) =
     Some \<lparr>bodyA = Suc 0, bodyB = 0, contactPoint = vec 1 0 0,
            contactNormal = vec (- 1) 0 0, penetrationDepth = 1\<rparr>"
  using sphere_box_order_symmetry [of demo_bodies "demo_sphere 2" demo_box]
  by (simp add: box_checkCollision_def sphere_checkCollision_def demo_box_sphere
        vmultiply_def vec_def)

text \<open>
  Claim C6, as amended. With \<open>d\<close> the distance from the sphere's centre to the closest
  point, obtained by clamping the centre into the box's world AABB: if \<open>d\<close> is greater
  than the radius no collision is reported; otherwise (\<open>d\<close> at most the radius, the
  touching case included) a collision is reported with penetration depth
  \<open>radius - d\<close>, contact point the closest point, body A the box's body and body B the
  sphere's.
\<close>

theorem box_sphere_narrow_phase:
  "(vdistanceTo (position (bs (rigidbody sphere)))
        (closestPoint (box_getAABB bs box) (position (bs (rigidbody sphere)))) > radius sphere
      \<longrightarrow> checkCollision bs (Box box) (Sphere sphere) = None)
   \<and> (vdistanceTo (position (bs (rigidbody sphere)))
        (closestPoint (box_getAABB bs box) (position (bs (rigidbody sphere)))) \<le> radius sphere
      \<longrightarrow> (\<exists>c. checkCollision bs (Box box) (Sphere sphere) = Some c
            \<and> penetrationDepth c = radius sphere
                - vdistanceTo (position (bs (rigidbody sphere)))
                    (closestPoint (box_getAABB bs box) (position (bs (rigidbody sphere))))
            \<and> contactPoint c
                = closestPoint (box_getAABB bs box) (position (bs (rigidbody sphere)))
            \<and> bodyA c = rigidbody box \<and> bodyB c = rigidbody sphere))"
  by (simp add: box_checkCollision_def box_checkSphereCollision_def Let_def)

theorem box_sphere_narrow_phase_witness:
  "checkCollision demo_bodies (Box demo_box) (Sphere (demo_sphere (1 / 2))) = None
   \<and> checkCollision demo_bodies (Box demo_box) (Sphere (demo_sphere 3)) =
       Some \<lparr>bodyA = 0, bodyB = Suc 0, contactPoint = vec 1 0 0,
              contactNormal = vec 1 0 0, penetrationDepth = 2\<rparr>"
  using box_sphere_narrow_phase [of "demo_sphere (1 / 2)" demo_bodies demo_box]
        box_sphere_narrow_phase [of "demo_sphere 3" demo_bodies demo_box]
  by (simp add: box_checkCollision_def demo_box_sphere demo_distance)

text \<open>
  Claim C6 as stated fails when the distance equals the radius: for the sphere of radius
  1 the distance is 1, and a collision of penetration depth 0 is reported.
\<close>

theorem box_sphere_touching_counterexample:
  "vdistanceTo (position (demo_bodies (rigidbody (demo_sphere 1))))
     (closestPoint (box_getAABB demo_bodies demo_box)
        (position (demo_bodies (rigidbody (demo_sphere 1))))) \<ge> radius (demo_sphere 1)
   \<and> checkCollision demo_bodies (Box demo_box) (Sphere (demo_sphere 1)) =
       Some \<lparr>bodyA = 0, bodyB = Suc 0, contactPoint = vec 1 0 0,
              contactNormal = vec 1 0 0, penetrationDepth = 0\<rparr>"
  by (simp add: box_checkCollision_def demo_box_sphere demo_distance) (simp add: demo_sphere_def)

section \<open>Registering colliders\<close>

lemma addCollider_maxObjects [simp]:
  "maxObjectsPerFrame (addCollider cs c w) = maxObjectsPerFrame w"
  by (simp add: addCollider_def addRigidBody_def)

lemma addCollider_colliders:
  "colliders (addCollider cs c w) =
     (if c \<notin> set (colliders w) \<and> real (length (colliders w)) < maxObjectsPerFrame w
      then colliders w @ [c] else colliders w)"
  by (simp add: addCollider_def addRigidBody_def)

lemma addColliders_take:
  "maxObjectsPerFrame w = real k \<Longrightarrow> length (colliders w) \<le> k \<Longrightarrow>
   distinct (colliders w @ refs) \<Longrightarrow>
   colliders (addColliders cs refs w) = take k (colliders w @ refs)"
proof (induction refs arbitrary: w)
  case Nil
  then show ?case by simp
next
  case (Cons c refs)
  show ?case
  proof (cases "length (colliders w) < k")
    case True
    with Cons.prems have step: "colliders (addCollider cs c w) = colliders w @ [c]"
      by (simp add: addCollider_colliders)
    have "colliders (addColliders cs refs (addCollider cs c w))
            = take k (colliders (addCollider cs c w) @ refs)"
      using Cons.prems True by (intro Cons.IH) (simp_all add: step)
    then show ?thesis by (simp add: step)
  next
    case False
    with Cons.prems have full: "length (colliders w) = k" by simp
    with Cons.prems have step: "colliders (addCollider cs c w) = colliders w"
      by (simp add: addCollider_colliders)
    have "colliders (addColliders cs refs (addCollider cs c w))
            = take k (colliders (addCollider cs c w) @ refs)"
      using Cons.prems full by (intro Cons.IH) (simp_all add: step)
    then show ?thesis using full by (simp add: step)
  qed
qed

text \<open>
  Claim C5. For a collider \<open>c\<close> that is not registered: at or beyond the cap
  \<open>addCollider\<close> returns the world unchanged, so with the count at the cap it stays
  exactly at the cap, \<open>c\<close> is not registered, and its body is not registered if it was
  not before; below the cap \<open>c\<close> is appended to the colliders and its body is registered
  (appended unless already there). A registered collider is not added again, and both
  registries stay free of duplicates. Registering in order a duplicate-free list of at
  least \<open>k\<close> colliders in a world without colliders whose cap is \<open>k\<close> registers exactly
  the first \<open>k\<close> of them.
\<close>

theorem addCollider_cap:
  "(c \<notin> set (colliders w) \<and> real (length (colliders w)) \<ge> maxObjectsPerFrame w
      \<longrightarrow> addCollider cs c w = w)
   \<and> (c \<notin> set (colliders w) \<and> real (length (colliders w)) = maxObjectsPerFrame w
      \<longrightarrow> real (length (colliders (addCollider cs c w))) = maxObjectsPerFrame (addCollider cs c w)
          \<and> c \<notin> set (colliders (addCollider cs c w))
          \<and> (rigidbody_of (cs c) \<notin> set (rigidbodies w)
               \<longrightarrow> rigidbody_of (cs c) \<notin> set (rigidbodies (addCollider cs c w))))
   \<and> (c \<notin> set (colliders w) \<and> real (length (colliders w)) < maxObjectsPerFrame w
      \<longrightarrow> colliders (addCollider cs c w) = colliders w @ [c]
          \<and> rigidbody_of (cs c) \<in> set (rigidbodies (addCollider cs c w))
          \<and> rigidbodies (addCollider cs c w) =
              (if rigidbody_of (cs c) \<in> set (rigidbodies w) then rigidbodies w
               else rigidbodies w @ [rigidbody_of (cs c)]))
   \<and> (c \<in> set (colliders w) \<longrightarrow> addCollider cs c w = w)
   \<and> (distinct (colliders w) \<longrightarrow> distinct (colliders (addCollider cs c w)))
   \<and> (distinct (rigidbodies w) \<longrightarrow> distinct (rigidbodies (addCollider cs c w)))
   \<and> (maxObjectsPerFrame w = real k \<and> colliders w = [] \<and> distinct refs \<and> k \<le> length refs
      \<longrightarrow> length (colliders (addColliders cs refs w)) = k
          \<and> colliders (addColliders cs refs w) = take k refs)"
proof -
  have seq: "colliders (addColliders cs refs w) = take k refs"
    if "maxObjectsPerFrame w = real k" "colliders w = []" "distinct refs"
    using addColliders_take [of w k refs cs] that by simp
  show ?thesis
    using seq by (auto simp: addCollider_def addRigidBody_def)
qed


theorem addCollider_cap_witness:
  "colliders (addColliders demo_colliders [0, 1, 2, 3, 4, 5, 6, 7, 8, 9, 10, 11] demo_world)
     = [0, 1, 2, 3, 4, 5, 6, 7, 8, 9]
   \<and> addCollider demo_colliders 12 (demo_world\<lparr>colliders := [0, 1, 2, 3, 4, 5, 6, 7, 8, 9]\<rparr>)
     = demo_world\<lparr>colliders := [0, 1, 2, 3, 4, 5, 6, 7, 8, 9]\<rparr>
   \<and> colliders (addCollider demo_colliders 0 demo_world) = [0]
   \<and> rigidbodies (addCollider demo_colliders 0 demo_world) = [100]"
  using addCollider_cap [of 12 "demo_world\<lparr>colliders := [0, 1, 2, 3, 4, 5, 6, 7, 8, 9]\<rparr>"
                            demo_colliders 10 "[]"]
        addCollider_cap [of 0 demo_world demo_colliders 10
                            "[0, 1, 2, 3, 4, 5, 6, 7, 8, 9, 10, 11]"]
  by (simp add: demo_world_def demo_colliders_def setMaxObjects_def new_PhysicsWorld_def)

section \<open>Bodies that a sub-update does not write\<close>

lemma resolve_passes_keeps:
  "(\<And>cl bs h. Q cl \<Longrightarrow> P bs \<Longrightarrow> P (fst (resolve_all cl bs h))) \<Longrightarrow>
   (\<And>bs. Q (detect cs bs cols)) \<Longrightarrow>
   Q cl \<Longrightarrow> P bs \<Longrightarrow> P (snd (resolve_passes cs cols n i cl bs))"
proof (induction cs cols n i cl bs rule: resolve_passes.induct)
  case (1 cs cols iterations iteration cl bs)
  note pass = "1.prems"(1) and det = "1.prems"(2)
  show ?case
  proof (cases "iteration < iterations")
    case False
    then show ?thesis
      using "1.prems"(4) by (subst resolve_passes.simps) simp
  next
    case running: True
    obtain bs1 hasCollisions where ra: "resolve_all cl bs False = (bs1, hasCollisions)"
      by (cases "resolve_all cl bs False")
    from pass [OF "1.prems"(3,4), of False] ra have bs1: "P bs1" by simp
    show ?thesis
    proof (cases hasCollisions)
      case False
      then show ?thesis
        using running ra bs1 by (subst resolve_passes.simps) simp
    next
      case hc: True
      then have nn: "\<not> \<not> hasCollisions" by simp
      show ?thesis
      proof (cases "iteration < iterations - 1")
        case True
        have "P (snd (resolve_passes cs cols iterations (Suc iteration) (detect cs bs1 cols) bs1))"
          by (rule "1.IH"(1) [OF running refl ra [symmetric] nn True pass det det bs1])
        then show ?thesis
          using running ra hc True by (subst resolve_passes.simps) simp
      next
        case False
        have "P (snd (resolve_passes cs cols iterations (Suc iteration) cl bs1))"
          by (rule "1.IH"(2) [OF running refl ra [symmetric] nn False pass det "1.prems"(3) bs1])
        then show ?thesis
          using running ra hc False by (subst resolve_passes.simps) simp
      qed
    qed
  qed
qed

lemma snd_resolveCollisions:
  "snd (resolveCollisions cs w bs)
     = snd (resolve_passes cs (colliders w) (collisionIterations w) 0 (collisions w) bs)"
  by (simp add: resolveCollisions_def split: prod.splits)

lemma snd_sub_update:
  "snd (sub_update cs st) = snd (fixedUpdate cs (timeStep (fst st)) (fst st) (snd st))"
  by (simp add: sub_update_def split: prod.splits)

subsection \<open>Static bodies\<close>

lemma apply_force_op_static: "isStatic b \<Longrightarrow> apply_force_op b fop = b"
  by (cases fop) (simp_all add: addForce_def addForceAtPoint_def addTorque_def)

lemma apply_force_ops_static: "isStatic b \<Longrightarrow> foldl apply_force_op b fops = b"
  by (induction fops) (simp_all add: apply_force_op_static)

lemma foldl_keeps_body:
  assumes "\<And>st q. st r = b0 \<Longrightarrow> f st q r = b0"
  shows "bs r = b0 \<Longrightarrow> foldl f bs qs r = b0"
  by (induction qs arbitrary: bs) (simp_all add: assms)

lemma applyGravity_static:
  "isStatic b0 \<Longrightarrow> bs r = b0 \<Longrightarrow> applyGravity w bs r = b0"
  unfolding applyGravity_def
  by (rule foldl_keeps_body) (auto simp: Let_def)

lemma integrateAll_static:
  "isStatic b0 \<Longrightarrow> bs r = b0 \<Longrightarrow> integrateAll w dt bs r = b0"
  unfolding integrateAll_def
  by (rule foldl_keeps_body) (auto simp: integrate_def)

lemma separateObjects_static:
  "isStatic b0 \<Longrightarrow> bs r = b0 \<Longrightarrow> separateObjects a b n p bs r = b0"
  by (auto simp: separateObjects_def Let_def)

lemma applyFriction_static:
  "isStatic b0 \<Longrightarrow> bs r = b0 \<Longrightarrow> applyFriction a b n rv j bs r = b0"
  by (auto simp: applyFriction_def Let_def)

lemma resolveCollision_static:
  assumes "isStatic b0" "bs r = b0"
  shows "fst (resolveCollision c bs) r = b0"
proof -
  let ?bs1 = "separateObjects (bodyA c) (bodyB c) (contactNormal c) (penetrationDepth c) bs"
  have s1: "?bs1 r = b0"
    using assms by (rule separateObjects_static)
  show ?thesis
    using assms s1
    by (auto simp: resolveCollision_def Let_def intro!: applyFriction_static)
qed

lemma resolve_all_static:
  "isStatic b0 \<Longrightarrow> bs r = b0 \<Longrightarrow> fst (resolve_all cl bs h) r = b0"
proof (induction cl arbitrary: bs h)
  case Nil
  then show ?case by simp
next
  case (Cons c cl)
  obtain bs1 resolved where rc: "resolveCollision c bs = (bs1, resolved)"
    by (cases "resolveCollision c bs")
  have "fst (resolveCollision c bs) r = b0"
    using Cons.prems by (rule resolveCollision_static)
  with rc have "bs1 r = b0" by simp
  from Cons.IH [where bs = bs1, OF Cons.prems(1) this] show ?case
    by (simp add: rc)
qed

lemma resolve_passes_static:
  "isStatic b0 \<Longrightarrow> bs r = b0 \<Longrightarrow> snd (resolve_passes cs cols n i cl bs) r = b0"
  by (rule resolve_passes_keeps [where Q = "\<lambda>cl. True" and P = "\<lambda>st. st r = b0"])
     (simp_all add: resolve_all_static)

lemma fixedUpdate_static:
  assumes "isStatic b0" "bs r = b0"
  shows "snd (fixedUpdate cs dt w bs) r = b0"
proof -
  have "integrateAll w dt (applyGravity w bs) r = b0"
    using assms by (intro integrateAll_static applyGravity_static)
  with assms(1) show ?thesis
    by (simp add: fixedUpdate_def snd_resolveCollisions Let_def resolve_passes_static)
qed

lemma sub_update_static:
  "isStatic b0 \<Longrightarrow> snd st r = b0 \<Longrightarrow> snd (sub_update cs st) r = b0"
  by (simp add: snd_sub_update fixedUpdate_static)

lemma step_loop_static:
  "isStatic b0 \<Longrightarrow> snd st r = b0 \<Longrightarrow> snd (fst (step_loop cs st k)) r = b0"
proof (induction cs st k rule: step_loop.induct)
  case (1 cs st subSteps)
  show ?case
  proof (cases "timeStep (fst st) \<le> accumulator (fst st) \<and> subSteps < maxSubSteps (fst st)")
    case True
    have "snd (sub_update cs st) r = b0"
      using "1.prems" by (rule sub_update_static)
    from "1.IH" [OF True "1.prems"(1) this] True show ?thesis
      by (subst step_loop.simps) simp
  next
    case False
    then show ?thesis
      using "1.prems" by (subst step_loop.simps) auto
  qed
qed

text \<open>
  Claim C3. A static body is left as it is by \<open>step\<close>, whatever forces and torques were
  applied to it through \<open>addForce\<close>, \<open>addForceAtPoint\<close> and \<open>addTorque\<close> before the step
  and whatever collisions the step resolves: the whole body record, and so its position
  and its velocity, is the one from before. The body may be registered or not, with or
  without colliders.
\<close>

theorem static_body_unchanged_by_step:
  "isStatic (bs r) \<Longrightarrow>
   snd (step cs dt (w, bs(r := foldl apply_force_op (bs r) fops))) r = bs r
   \<and> position (snd (step cs dt (w, bs(r := foldl apply_force_op (bs r) fops))) r)
       = position (bs r)
   \<and> velocity (snd (step cs dt (w, bs(r := foldl apply_force_op (bs r) fops))) r)
       = velocity (bs r)"
proof -
  assume static: "isStatic (bs r)"
  then have "bs(r := foldl apply_force_op (bs r) fops) = bs"
    by (simp add: apply_force_ops_static)
  moreover have "snd (step cs dt (w, bs)) r = bs r"
    unfolding step_def using static by (intro step_loop_static) simp_all
  ultimately show ?thesis by simp
qed

theorem static_body_unchanged_by_step_witness:
  "isStatic (ground_bodies 100)
   \<and> position (snd (step demo_colliders (1 / 60)
        (ground_world, ground_bodies(100 := foldl apply_force_op (ground_bodies 100)
           [AddForce (vec 0 5 0), AddForceAtPoint (vec 1 0 0) (vec 0 1 0), AddTorque (vec 0 0 1)])))
        100) = vzero
   \<and> velocity (snd (step demo_colliders (1 / 60)
        (ground_world, ground_bodies(100 := foldl apply_force_op (ground_bodies 100)
           [AddForce (vec 0 5 0), AddForceAtPoint (vec 1 0 0) (vec 0 1 0), AddTorque (vec 0 0 1)])))
        100) = vzero"
proof -
  have h: "isStatic (ground_bodies 100)"
    by (simp add: ground_bodies_def makeStatic_def)
  have p: "position (ground_bodies 100) = vzero" "velocity (ground_bodies 100) = vzero"
    by (simp_all add: ground_bodies_def makeStatic_def new_RigidBody_def)
  from static_body_unchanged_by_step
         [where bs = ground_bodies and r = 100 and cs = demo_colliders and dt = "1 / 60"
            and w = ground_world
            and fops = "[AddForce (vec 0 5 0), AddForceAtPoint (vec 1 0 0) (vec 0 1 0),
                         AddTorque (vec 0 0 1)]", OF h] h p
  show ?thesis by simp
qed

subsection \<open>Bodies without a collider\<close>

lemma separateObjects_other:
  "r \<noteq> a \<Longrightarrow> r \<noteq> b \<Longrightarrow> separateObjects a b n p bs r = bs r"
  by (simp add: separateObjects_def Let_def)

lemma applyFriction_other:
  "r \<noteq> a \<Longrightarrow> r \<noteq> b \<Longrightarrow> applyFriction a b n rv j bs r = bs r"
  by (simp add: applyFriction_def Let_def)

lemma resolveCollision_other:
  "bodyA c \<noteq> r \<Longrightarrow> bodyB c \<noteq> r \<Longrightarrow> fst (resolveCollision c bs) r = bs r"
  by (auto simp: resolveCollision_def Let_def separateObjects_other applyFriction_other)

lemma resolve_all_other:
  "\<forall>c \<in> set cl. bodyA c \<noteq> r \<and> bodyB c \<noteq> r \<Longrightarrow> fst (resolve_all cl bs h) r = bs r"
proof (induction cl arbitrary: bs h)
  case Nil
  then show ?case by simp
next
  case (Cons c cl)
  obtain bs1 resolved where rc: "resolveCollision c bs = (bs1, resolved)"
    by (cases "resolveCollision c bs")
  with Cons.prems resolveCollision_other [of c r bs] have "bs1 r = bs r" by simp
  moreover from Cons.prems have "\<forall>c \<in> set cl. bodyA c \<noteq> r \<and> bodyB c \<noteq> r" by simp
  ultimately show ?case
    using Cons.IH [of bs1] by (simp add: rc)
qed

lemma box_checkBoxCollision_bodies:
  assumes "box_checkBoxCollision bs this other = Some c"
  shows "bodyA c = rigidbody this \<and> bodyB c = rigidbody other"
proof (cases "intersects (box_getAABB bs this) (box_getAABB bs other)")
  case False
  with assms show ?thesis
    by (simp add: box_checkBoxCollision_def Let_def)
next
  case True
  then have "bodyA (the (box_checkBoxCollision bs this other)) = rigidbody this
           \<and> bodyB (the (box_checkBoxCollision bs this other)) = rigidbody other"
    by (simp add: box_checkBoxCollision_def Let_def case_prod_beta)
  with assms show ?thesis by simp
qed

lemma box_checkSphereCollision_bodies:
  "box_checkSphereCollision bs this sphere = Some c \<Longrightarrow>
   bodyA c = rigidbody this \<and> bodyB c = rigidbody sphere"
  unfolding box_checkSphereCollision_def Let_def
  by (auto split: if_splits)

lemma sphere_checkSphereCollision_bodies:
  "sphere_checkSphereCollision bs this other = Some c \<Longrightarrow>
   bodyA c = rigidbody this \<and> bodyB c = rigidbody other"
  unfolding sphere_checkSphereCollision_def Let_def
  by (auto split: if_splits)

lemma checkCollision_bodies:
  assumes "checkCollision bs ca cb = Some c"
  shows "bodyA c \<in> {rigidbody_of ca, rigidbody_of cb}
       \<and> bodyB c \<in> {rigidbody_of ca, rigidbody_of cb}"
proof (cases ca)
  case (Box a)
  show ?thesis
  proof (cases cb)
    case (Box b)
    with assms \<open>ca = Box a\<close> have "box_checkBoxCollision bs a b = Some c"
      by (simp add: box_checkCollision_def)
    from box_checkBoxCollision_bodies [OF this] Box \<open>ca = Box a\<close> show ?thesis by simp
  next
    case (Sphere s)
    with assms \<open>ca = Box a\<close> have "box_checkSphereCollision bs a s = Some c"
      by (simp add: box_checkCollision_def)
    from box_checkSphereCollision_bodies [OF this] Sphere \<open>ca = Box a\<close> show ?thesis by simp
  qed
next
  case (Sphere s)
  show ?thesis
  proof (cases cb)
    case (Box b)
    with assms \<open>ca = Sphere s\<close> obtain c0 where c0: "box_checkSphereCollision bs b s = Some c0"
      and c: "bodyA c = bodyB c0" "bodyB c = bodyA c0"
      by (auto simp: sphere_checkCollision_def split: option.splits)
    from box_checkSphereCollision_bodies [OF c0] c Box \<open>ca = Sphere s\<close> show ?thesis by simp
  next
    case (Sphere t)
    with assms \<open>ca = Sphere s\<close> have "sphere_checkSphereCollision bs s t = Some c"
      by (simp add: sphere_checkCollision_def)
    from sphere_checkSphereCollision_bodies [OF this] Sphere \<open>ca = Sphere s\<close> show ?thesis
      by simp
  qed
qed

lemma detect_pair_bodies:
  "detect_pair cs bs i j = Some c \<Longrightarrow>
   bodyA c \<in> {rigidbody_of (cs i), rigidbody_of (cs j)}
   \<and> bodyB c \<in> {rigidbody_of (cs i), rigidbody_of (cs j)}"
  unfolding detect_pair_def Let_def
  by (auto split: if_splits option.splits dest: checkCollision_bodies)

lemma detect_row_bodies:
  "c \<in> set (detect_row cs bs i js) \<Longrightarrow>
   bodyA c \<in> rigidbody_of ` cs ` set (i # js) \<and> bodyB c \<in> rigidbody_of ` cs ` set (i # js)"
proof (induction js)
  case Nil
  then show ?case by simp
next
  case (Cons j js)
  from Cons.prems consider "detect_pair cs bs i j = Some c" | "c \<in> set (detect_row cs bs i js)"
    by (auto split: option.splits)
  then show ?case
  proof cases
    case 1
    from detect_pair_bodies [OF this] show ?thesis by auto
  next
    case 2
    from Cons.IH [OF this] show ?thesis by auto
  qed
qed

lemma detect_bodies:
  "c \<in> set (detect cs bs cols) \<Longrightarrow>
   bodyA c \<in> rigidbody_of ` cs ` set cols \<and> bodyB c \<in> rigidbody_of ` cs ` set cols"
proof (induction cols)
  case Nil
  then show ?case by simp
next
  case (Cons i rest)
  from Cons.prems consider "c \<in> set (detect_row cs bs i rest)" | "c \<in> set (detect cs bs rest)"
    by auto
  then show ?case
  proof cases
    case 1
    from detect_row_bodies [OF this] show ?thesis by simp
  next
    case 2
    from Cons.IH [OF this] show ?thesis by auto
  qed
qed

lemma fixedUpdate_other:
  assumes "\<forall>q \<in> set (colliders w). rigidbody_of (cs q) \<noteq> r"
  shows "snd (fixedUpdate cs dt w bs) r = integrateAll w dt (applyGravity w bs) r"
proof -
  let ?bs2 = "integrateAll w dt (applyGravity w bs)"
  let ?Q = "\<lambda>cl. \<forall>c \<in> set cl. bodyA c \<noteq> r \<and> bodyB c \<noteq> r"
  have det: "?Q (detect cs st (colliders w))" for st
  proof (intro ballI)
    fix c assume "c \<in> set (detect cs st (colliders w))"
    from detect_bodies [OF this] assms show "bodyA c \<noteq> r \<and> bodyB c \<noteq> r"
      by auto
  qed
  have "snd (resolve_passes cs (colliders w) (collisionIterations w) 0
               (detect cs ?bs2 (colliders w)) ?bs2) r = ?bs2 r"
    by (rule resolve_passes_keeps [where Q = ?Q and P = "\<lambda>st. st r = ?bs2 r"])
       (simp_all add: resolve_all_other det)
  then show ?thesis
    by (simp add: fixedUpdate_def snd_resolveCollisions detectCollisions_def Let_def)
qed

section \<open>One sub-update under gravity\<close>

lemma foldl_update_each:
  "distinct qs \<Longrightarrow>
   foldl (\<lambda>st q. st(q := f (st q))) bs qs r = (if r \<in> set qs then f (bs r) else bs r)"
proof (induction qs arbitrary: bs)
  case Nil
  then show ?case by simp
next
  case (Cons q qs)
  then show ?case by (auto simp: fun_upd_def)
qed

lemma applyGravity_body:
  assumes "distinct (rigidbodies w)" "r \<in> set (rigidbodies w)"
  shows "applyGravity w bs r =
           (if useGravity (bs r) \<and> \<not> isStatic (bs r) \<and> \<not> isKinematic (bs r)
            then addForce (vmultiply (gravity w) (mass (bs r))) (bs r) else bs r)"
proof -
  let ?g = "\<lambda>b. if useGravity b \<and> \<not> isStatic b \<and> \<not> isKinematic b
                 then addForce (vmultiply (gravity w) (mass b)) b else b"
  have "applyGravity w bs = foldl (\<lambda>st q. st(q := ?g (st q))) bs (rigidbodies w)"
    unfolding applyGravity_def
    by (rule arg_cong [where f = "\<lambda>f. foldl f bs (rigidbodies w)"]) (auto simp: Let_def fun_eq_iff)
  then show ?thesis
    using assms(2) foldl_update_each [where f = ?g, OF assms(1), of bs r] by simp
qed

lemma integrateAll_body:
  "distinct (rigidbodies w) \<Longrightarrow> r \<in> set (rigidbodies w) \<Longrightarrow>
   integrateAll w dt bs r = integrate dt (bs r)"
  using foldl_update_each [where f = "integrate dt", of "rigidbodies w" bs r]
  by (simp add: integrateAll_def)

text \<open>
  Claim C7. Let a body be registered once in a world with gravity \<open>(0, 10, 0)\<close> in which
  no collider refers to it, and let the body be dynamic with mass 1 and inverse mass 1,
  use gravity, have velocity zero and no pending force. After one sub-update of duration
  \<open>dt\<close> its velocity has \<open>y\<close> component \<open>10 dt\<close> and its position has moved in \<open>y\<close> by
  \<open>10 dt\<^sup>2\<close>, the product of the new velocity and \<open>dt\<close>: from \<open>y = 0\<close>, where the
  constructor puts a body by default, to \<open>10 dt\<^sup>2\<close>.
\<close>

theorem gravity_step_semi_implicit_euler:
  assumes "\<forall>q \<in> set (colliders w). rigidbody_of (cs q) \<noteq> r"
    and "distinct (rigidbodies w)"
    and "r \<in> set (rigidbodies w)"
    and "gravity w = vec 0 10 0"
    and "mass (bs r) = 1" and "inverseMass (bs r) = 1"
    and "\<not> isStatic (bs r)" and "\<not> isKinematic (bs r)" and "useGravity (bs r)"
    and "velocity (bs r) = vzero" and "forces (bs r) = []"
  shows "vy (velocity (snd (fixedUpdate cs dt w bs) r)) = 10 * dt
       \<and> vy (position (snd (fixedUpdate cs dt w bs) r)) = vy (position (bs r)) + 10 * dt\<^sup>2
       \<and> (vy (position (bs r)) = 0 \<longrightarrow>
            vy (position (snd (fixedUpdate cs dt w bs) r)) = 10 * dt\<^sup>2)"
proof -
  let ?b1 = "addForce (vmultiply (gravity w) (mass (bs r))) (bs r)"
  have g: "applyGravity w bs r = ?b1"
    using assms by (simp add: applyGravity_body)
  have "snd (fixedUpdate cs dt w bs) r = integrate dt ?b1"
    using assms(2,3) g by (simp add: fixedUpdate_other [OF assms(1)] integrateAll_body)
  moreover have "vy (velocity (integrate dt ?b1)) = 10 * dt"
    using assms(4-11)
    by (simp add: integrate_def addForce_def Let_def vadd_def vmultiply_def vmagnitude_def
          vzero_def vec_def)
  moreover have "vy (position (integrate dt ?b1)) = vy (position (bs r)) + 10 * dt\<^sup>2"
    using assms(4-11)
    by (simp add: integrate_def addForce_def Let_def vadd_def vmultiply_def vmagnitude_def
          vzero_def vec_def power2_eq_square)
  ultimately show ?thesis by simp
qed

theorem gravity_step_semi_implicit_euler_witness:
  "colliders fall_world = [5] \<and> rigidbody_of (demo_colliders 5) = 105
   \<and> distinct (rigidbodies fall_world)
   \<and> 0 \<in> set (rigidbodies fall_world) \<and> gravity fall_world = vec 0 10 0
   \<and> mass (fall_bodies 0) = 1 \<and> inverseMass (fall_bodies 0) = 1
   \<and> \<not> isStatic (fall_bodies 0) \<and> \<not> isKinematic (fall_bodies 0) \<and> useGravity (fall_bodies 0)
   \<and> velocity (fall_bodies 0) = vzero \<and> forces (fall_bodies 0) = []
   \<and> vy (position (fall_bodies 0)) = 0
   \<and> vy (velocity (snd (fixedUpdate demo_colliders (1 / 2) fall_world fall_bodies) 0)) = 5
   \<and> vy (position (snd (fixedUpdate demo_colliders (1 / 2) fall_world fall_bodies) 0)) = 5 / 2"
proof -
  have h: "\<forall>q \<in> set (colliders fall_world). rigidbody_of (demo_colliders q) \<noteq> 0"
    "distinct (rigidbodies fall_world)"
    "0 \<in> set (rigidbodies fall_world)" "gravity fall_world = vec 0 10 0"
    "mass (fall_bodies 0) = 1" "inverseMass (fall_bodies 0) = 1"
    "\<not> isStatic (fall_bodies 0)" "\<not> isKinematic (fall_bodies 0)" "useGravity (fall_bodies 0)"
    "velocity (fall_bodies 0) = vzero" "forces (fall_bodies 0) = []"
    by (simp_all add: fall_world_def fall_bodies_def setGravity_def addRigidBody_def
          addCollider_def demo_colliders_def new_PhysicsWorld_def new_RigidBody_def)
  have p: "vy (position (fall_bodies 0)) = 0"
    by (simp add: fall_bodies_def new_RigidBody_def vzero_def vec_def)
  have c: "colliders fall_world = [5]" "rigidbody_of (demo_colliders 5) = 105"
    by (simp_all add: fall_world_def setGravity_def addRigidBody_def addCollider_def
          demo_colliders_def new_PhysicsWorld_def)
  from gravity_step_semi_implicit_euler
         [where w = fall_world and bs = fall_bodies and r = 0 and cs = demo_colliders
            and dt = "1 / 2", OF h] h p c
  show ?thesis by (simp add: power2_eq_square)
qed

section \<open>Resolving one collision\<close>

lemma separateObjects_velocity:
  "velocity (separateObjects a b n p bs r) = velocity (bs r)"
  by (simp add: separateObjects_def Let_def)

lemma vsubtract_zero_correction: "vsubtract v (vmultiply (vmultiply n 0) m) = v"
  by (simp add: vsubtract_def vmultiply_def vec_def)

lemma vadd_zero_correction: "vadd v (vmultiply (vmultiply n 0) m) = v"
  by (simp add: vadd_def vmultiply_def vec_def)

lemma separateObjects_idle:
  "isStatic (bs a) \<and> isStatic (bs b) \<or> p \<le> 0.005 \<Longrightarrow> separateObjects a b n p bs = bs"
  by (auto simp: separateObjects_def Let_def max_def vsubtract_zero_correction
        vadd_zero_correction)

lemma pair_separated:
  "position (separateObjects 0 (Suc 0) (vec 1 0 0) (21 / 200) (pair_bodies v) 0)
     = vec (- (9 / 200)) 0 0"
  "position (separateObjects 0 (Suc 0) (vec 1 0 0) (21 / 200) (pair_bodies v) (Suc 0))
     = vec (209 / 200) 0 0"
  by (simp_all add: separateObjects_def pair_bodies_def new_RigidBody_def
        vsubtract_def vadd_def vmultiply_def vzero_def vec_def Let_def)

text \<open>
  Claim C2, as amended. When the relative velocity of B against A has a strictly positive
  component along the contact normal, \<open>resolveCollision\<close> returns the store that
  \<open>separateObjects\<close> produces (the positional correction, which is the identity when both
  bodies are static or the penetration is at most the slop) together with \<open>False\<close>: no
  impulse is applied and no body's velocity changes.
\<close>

theorem resolveCollision_separating:
  "vdot (vsubtract (velocity (bs (bodyB c))) (velocity (bs (bodyA c)))) (contactNormal c) > 0
   \<Longrightarrow> resolveCollision c bs =
         (separateObjects (bodyA c) (bodyB c) (contactNormal c) (penetrationDepth c) bs, False)
       \<and> (\<forall>r. velocity (fst (resolveCollision c bs) r) = velocity (bs r))"
proof -
  assume sep: "vdot (vsubtract (velocity (bs (bodyB c))) (velocity (bs (bodyA c))))
                 (contactNormal c) > 0"
  let ?bs1 = "separateObjects (bodyA c) (bodyB c) (contactNormal c) (penetrationDepth c) bs"
  have res: "resolveCollision c bs = (?bs1, False)"
  proof (cases "isStatic (bs (bodyA c)) \<and> isStatic (bs (bodyB c)) \<or> penetrationDepth c \<le> 0.001")
    case True
    then have "?bs1 = bs"
      by (intro separateObjects_idle) auto
    with True show ?thesis
      by (auto simp: resolveCollision_def Let_def)
  next
    case False
    with sep show ?thesis
      by (auto simp: resolveCollision_def Let_def separateObjects_velocity)
  qed
  then show ?thesis
    by (simp add: separateObjects_velocity)
qed

theorem resolveCollision_separating_witness:
  "vdot (vsubtract (velocity (pair_bodies (vec 1 0 0) (bodyB pair_contact)))
                   (velocity (pair_bodies (vec 1 0 0) (bodyA pair_contact))))
        (contactNormal pair_contact) > 0
   \<and> snd (resolveCollision pair_contact (pair_bodies (vec 1 0 0))) = False
   \<and> position (fst (resolveCollision pair_contact (pair_bodies (vec 1 0 0))) 0)
       = vec (- (9 / 200)) 0 0
   \<and> position (fst (resolveCollision pair_contact (pair_bodies (vec 1 0 0))) (Suc 0))
       = vec (209 / 200) 0 0
   \<and> velocity (fst (resolveCollision pair_contact (pair_bodies (vec 1 0 0))) 0) = vzero
   \<and> velocity (fst (resolveCollision pair_contact (pair_bodies (vec 1 0 0))) (Suc 0))
       = vec 1 0 0"
proof -
  have h: "vdot (vsubtract (velocity (pair_bodies (vec 1 0 0) (bodyB pair_contact)))
                   (velocity (pair_bodies (vec 1 0 0) (bodyA pair_contact))))
        (contactNormal pair_contact) > 0"
    by (simp add: pair_bodies_def pair_contact_def new_RigidBody_def vdot_def vsubtract_def
          vzero_def vec_def)
  have c: "bodyA pair_contact = 0" "bodyB pair_contact = Suc 0"
    "contactNormal pair_contact = vec 1 0 0" "penetrationDepth pair_contact = 21 / 200"
    by (simp_all add: pair_contact_def)
  have v: "velocity (pair_bodies (vec 1 0 0) 0) = vzero"
    "velocity (pair_bodies (vec 1 0 0) (Suc 0)) = vec 1 0 0"
    by (simp_all add: pair_bodies_def new_RigidBody_def)
  from resolveCollision_separating [OF h]
  have r: "resolveCollision pair_contact (pair_bodies (vec 1 0 0)) =
             (separateObjects 0 (Suc 0) (vec 1 0 0) (21 / 200) (pair_bodies (vec 1 0 0)), False)"
    and "\<forall>r. velocity (fst (resolveCollision pair_contact (pair_bodies (vec 1 0 0))) r)
              = velocity (pair_bodies (vec 1 0 0) r)"
    unfolding c by auto
  with h v show ?thesis
    by (simp add: pair_separated)
qed

text \<open>
  Claim C2 as stated fails when the component along the normal is exactly zero: for two
  penetrating bodies at rest the test \<open>velocityAlongNormal > 0\<close> is false, the impulse
  path runs and \<open>resolveCollision\<close> returns \<open>True\<close>.
\<close>

theorem resolveCollision_resting_counterexample:
  "vdot (vsubtract (velocity (pair_bodies vzero (bodyB pair_contact)))
                   (velocity (pair_bodies vzero (bodyA pair_contact))))
        (contactNormal pair_contact) \<ge> 0
   \<and> snd (resolveCollision pair_contact (pair_bodies vzero)) = True"
  by (simp add: resolveCollision_def separateObjects_def applyFriction_def
        pair_bodies_def pair_contact_def new_RigidBody_def vmagnitude_def
        vdot_def vsubtract_def vadd_def vmultiply_def vzero_def vec_def Let_def)

section \<open>The accumulator and the number of sub-updates\<close>

lemma fixedUpdate_world:
  "\<exists>cl. fst (fixedUpdate cs dt w bs) = w\<lparr>collisions := cl\<rparr>"
  by (auto simp: fixedUpdate_def resolveCollisions_def detectCollisions_def Let_def
        split: prod.splits)

lemma sub_update_world:
  "\<exists>cl. fst (sub_update cs st)
          = (fst st)\<lparr>collisions := cl, accumulator := accumulator (fst st) - timeStep (fst st)\<rparr>"
proof -
  obtain cl where "fst (fixedUpdate cs (timeStep (fst st)) (fst st) (snd st))
                     = (fst st)\<lparr>collisions := cl\<rparr>"
    using fixedUpdate_world by blast
  then show ?thesis
    by (auto simp: sub_update_def split: prod.splits)
qed

lemma sub_update_fields:
  "timeStep (fst (sub_update cs st)) = timeStep (fst st)"
  "maxSubSteps (fst (sub_update cs st)) = maxSubSteps (fst st)"
  "accumulator (fst (sub_update cs st)) = accumulator (fst st) - timeStep (fst st)"
  "gravity (fst (sub_update cs st)) = gravity (fst st)"
  "rigidbodies (fst (sub_update cs st)) = rigidbodies (fst st)"
  "colliders (fst (sub_update cs st)) = colliders (fst st)"
  "collisionIterations (fst (sub_update cs st)) = collisionIterations (fst st)"
  "maxObjectsPerFrame (fst (sub_update cs st)) = maxObjectsPerFrame (fst st)"
  using sub_update_world [of cs st] by auto

lemma sub_update_funpow_fields:
  "timeStep (fst ((sub_update cs ^^ n) st)) = timeStep (fst st)"
  "accumulator (fst ((sub_update cs ^^ n) st)) = accumulator (fst st) - real n * timeStep (fst st)"
  by (induction n) (simp_all add: sub_update_fields algebra_simps)

lemma floor_quotient_less_one:
  fixes a t :: real
  assumes "0 < t" "a < t"
  shows "nat \<lfloor>a / t\<rfloor> = 0"
proof -
  from assms have "a / t < 1" by simp
  then have "\<lfloor>a / t\<rfloor> \<le> 0" by linarith
  then show ?thesis by simp
qed

lemma floor_quotient_step:
  fixes a t :: real
  assumes "0 < t" "t \<le> a"
  shows "nat \<lfloor>a / t\<rfloor> = Suc (nat \<lfloor>(a - t) / t\<rfloor>)"
proof -
  from assms have q: "(a - t) / t = a / t - 1"
    by (simp add: diff_divide_distrib)
  define k where "k = \<lfloor>a / t\<rfloor>"
  from assms have "1 \<le> a / t" by simp
  then have "1 \<le> k" unfolding k_def by linarith
  then have "nat k = Suc (nat (k - 1))" by linarith
  moreover have "\<lfloor>a / t - 1\<rfloor> = k - 1" unfolding k_def by simp
  ultimately show ?thesis
    unfolding q k_def by simp
qed

lemma step_loop_count:
  "0 < timeStep (fst st) \<Longrightarrow>
   step_loop cs st subSteps =
     ((sub_update cs ^^ min (nat \<lfloor>accumulator (fst st) / timeStep (fst st)\<rfloor>)
                           (maxSubSteps (fst st) - subSteps)) st,
      subSteps + min (nat \<lfloor>accumulator (fst st) / timeStep (fst st)\<rfloor>)
                     (maxSubSteps (fst st) - subSteps))"
proof (induction cs st subSteps rule: step_loop.induct)
  case (1 cs st subSteps)
  let ?t = "timeStep (fst st)" and ?a = "accumulator (fst st)"
  show ?case
  proof (cases "?t \<le> ?a \<and> subSteps < maxSubSteps (fst st)")
    case True
    then have run: "?t \<le> ?a" "subSteps < maxSubSteps (fst st)" by simp_all
    have ih: "step_loop cs (sub_update cs st) (Suc subSteps) =
        ((sub_update cs ^^ min (nat \<lfloor>(?a - ?t) / ?t\<rfloor>) (maxSubSteps (fst st) - Suc subSteps))
           (sub_update cs st),
         Suc subSteps + min (nat \<lfloor>(?a - ?t) / ?t\<rfloor>) (maxSubSteps (fst st) - Suc subSteps))"
      using "1.IH" [OF True] "1.prems" by (simp add: sub_update_fields)
    have m: "min (nat \<lfloor>?a / ?t\<rfloor>) (maxSubSteps (fst st) - subSteps)
             = Suc (min (nat \<lfloor>(?a - ?t) / ?t\<rfloor>) (maxSubSteps (fst st) - Suc subSteps))"
      using floor_quotient_step [OF "1.prems" run(1)] run(2) by simp
    have "step_loop cs st subSteps = step_loop cs (sub_update cs st) (Suc subSteps)"
      by (subst step_loop.simps) (simp add: run)
    then show ?thesis
      unfolding ih m by (simp add: funpow_swap1)
  next
    case False
    have stop: "step_loop cs st subSteps = (st, subSteps)"
      using False by (subst step_loop.simps) auto
    from False have "min (nat \<lfloor>?a / ?t\<rfloor>) (maxSubSteps (fst st) - subSteps) = 0"
      using floor_quotient_less_one [OF "1.prems", of ?a] by auto
    with stop show ?thesis by simp
  qed
qed

text \<open>
  Claim C8, as amended. For a positive time step, \<open>step(dt)\<close> with accumulator \<open>acc\<close>
  before the call runs exactly \<open>n = min (max 0 \<lfloor>(acc + dt) / timeStep\<rfloor>) maxSubSteps\<close>
  sub-updates of duration \<open>timeStep\<close> (\<open>nat\<close> of an integer is its maximum with 0), and
  the accumulator afterwards is \<open>acc + dt - n * timeStep\<close>: the time beyond the cap stays
  in the accumulator.
\<close>

theorem step_runs_bounded_substeps:
  "0 < timeStep w \<Longrightarrow>
   step_loop cs (w\<lparr>accumulator := accumulator w + dt\<rparr>, bs) 0 =
     ((sub_update cs ^^ min (nat \<lfloor>(accumulator w + dt) / timeStep w\<rfloor>) (maxSubSteps w))
         (w\<lparr>accumulator := accumulator w + dt\<rparr>, bs),
      min (nat \<lfloor>(accumulator w + dt) / timeStep w\<rfloor>) (maxSubSteps w))
   \<and> step cs dt (w, bs) =
       (sub_update cs ^^ min (nat \<lfloor>(accumulator w + dt) / timeStep w\<rfloor>) (maxSubSteps w))
         (w\<lparr>accumulator := accumulator w + dt\<rparr>, bs)
   \<and> accumulator (fst (step cs dt (w, bs))) =
       accumulator w + dt
       - real (min (nat \<lfloor>(accumulator w + dt) / timeStep w\<rfloor>) (maxSubSteps w)) * timeStep w"
proof -
  assume pos: "0 < timeStep w"
  let ?st = "(w\<lparr>accumulator := accumulator w + dt\<rparr>, bs)"
  from pos have "0 < timeStep (fst ?st)" by simp
  from step_loop_count [OF this, of cs 0]
  have loop: "step_loop cs ?st 0 =
     ((sub_update cs ^^ min (nat \<lfloor>(accumulator w + dt) / timeStep w\<rfloor>) (maxSubSteps w)) ?st,
      min (nat \<lfloor>(accumulator w + dt) / timeStep w\<rfloor>) (maxSubSteps w))"
    by simp
  then show ?thesis
    by (simp add: step_def sub_update_funpow_fields)
qed

theorem step_runs_bounded_substeps_witness:
  "0 < timeStep new_PhysicsWorld
   \<and> snd (step_loop demo_colliders
            (new_PhysicsWorld\<lparr>accumulator := accumulator new_PhysicsWorld + 1\<rparr>, fall_bodies) 0)
       = 5
   \<and> accumulator (fst (step demo_colliders 1 (new_PhysicsWorld, fall_bodies))) = 11 / 12"
proof -
  have pos: "0 < timeStep new_PhysicsWorld"
    by (simp add: new_PhysicsWorld_def)
  have n: "min (nat \<lfloor>(accumulator new_PhysicsWorld + 1) / timeStep new_PhysicsWorld\<rfloor>)
               (maxSubSteps new_PhysicsWorld) = 5"
    by (simp add: new_PhysicsWorld_def)
  note run = step_runs_bounded_substeps [OF pos, of demo_colliders 1 fall_bodies, unfolded n]
  from conjunct1 [OF run] have "snd (step_loop demo_colliders
            (new_PhysicsWorld\<lparr>accumulator := accumulator new_PhysicsWorld + 1\<rparr>, fall_bodies) 0)
       = 5"
    by simp
  moreover from conjunct2 [OF conjunct2 [OF run]]
  have "accumulator (fst (step demo_colliders 1 (new_PhysicsWorld, fall_bodies)))
          = accumulator new_PhysicsWorld + 1 - real 5 * timeStep new_PhysicsWorld" .
  then have "accumulator (fst (step demo_colliders 1 (new_PhysicsWorld, fall_bodies))) = 11 / 12"
    by (simp add: new_PhysicsWorld_def)
  ultimately show ?thesis
    using pos by simp
qed

text \<open>
  Claim C8 as stated fails for a negative \<open>dt\<close>: from the accumulator 0 and with
  \<open>dt = -1\<close> no sub-update runs and the accumulator ends at \<open>-1\<close>, while the claim's
  \<open>n\<close> is \<open>-60\<close> and its accumulator is 0.
\<close>

theorem step_negative_time_counterexample:
  "snd (step_loop demo_colliders
          (new_PhysicsWorld\<lparr>accumulator := accumulator new_PhysicsWorld + (- 1)\<rparr>,
           fall_bodies) 0) = 0
   \<and> min \<lfloor>(accumulator new_PhysicsWorld + (- 1)) / timeStep new_PhysicsWorld\<rfloor>
          (int (maxSubSteps new_PhysicsWorld)) = - 60
   \<and> accumulator (fst (step demo_colliders (- 1) (new_PhysicsWorld, fall_bodies))) = - 1
   \<and> accumulator new_PhysicsWorld + (- 1)
       - real_of_int (min \<lfloor>(accumulator new_PhysicsWorld + (- 1)) / timeStep new_PhysicsWorld\<rfloor>
                          (int (maxSubSteps new_PhysicsWorld)))
         * timeStep new_PhysicsWorld = 0"
  by (simp add: step_def step_loop.simps new_PhysicsWorld_def)

section \<open>The collider cap\<close>

lemma step_loop_cap:
  "maxObjectsPerFrame (fst (fst (step_loop cs st k))) = maxObjectsPerFrame (fst st)"
proof (induction cs st k rule: step_loop.induct)
  case (1 cs st subSteps)
  show ?case
  proof (cases "timeStep (fst st) \<le> accumulator (fst st) \<and> subSteps < maxSubSteps (fst st)")
    case True
    with "1.IH" [OF True] show ?thesis
      by (subst step_loop.simps) (simp add: sub_update_fields)
  next
    case False
    then show ?thesis
      by (subst step_loop.simps) auto
  qed
qed

text \<open>
  Claim C10. \<open>setMaxObjects(limit)\<close> sets the collider cap to \<open>max 10 limit\<close>: a limit
  below 10 gives the cap 10, and the cap it sets is never below 10. The constructor sets
  the cap 200, and no other method of the world changes the cap.
\<close>

theorem setMaxObjects_cap:
  "maxObjectsPerFrame (setMaxObjects limit w) = max 10 limit
   \<and> (limit < 10 \<longrightarrow> maxObjectsPerFrame (setMaxObjects limit w) = 10)
   \<and> 10 \<le> maxObjectsPerFrame (setMaxObjects limit w)
   \<and> maxObjectsPerFrame new_PhysicsWorld = 200
   \<and> maxObjectsPerFrame (addRigidBody r w) = maxObjectsPerFrame w
   \<and> maxObjectsPerFrame (removeRigidBody r w) = maxObjectsPerFrame w
   \<and> maxObjectsPerFrame (addCollider cs c w) = maxObjectsPerFrame w
   \<and> maxObjectsPerFrame (removeCollider c w) = maxObjectsPerFrame w
   \<and> maxObjectsPerFrame (setGravity g w) = maxObjectsPerFrame w
   \<and> maxObjectsPerFrame (clear w) = maxObjectsPerFrame w
   \<and> maxObjectsPerFrame (configureDenseScene enable w) = maxObjectsPerFrame w
   \<and> maxObjectsPerFrame (fst (step cs dt (w, bs))) = maxObjectsPerFrame w"
  by (simp add: setMaxObjects_def new_PhysicsWorld_def addRigidBody_def removeRigidBody_def
        removeCollider_def setGravity_def clear_def configureDenseScene_def step_def
        step_loop_cap)

theorem setMaxObjects_cap_witness:
  "maxObjectsPerFrame (setMaxObjects 250 new_PhysicsWorld) = 250
   \<and> (- 3 :: real) < 10 \<and> maxObjectsPerFrame (setMaxObjects (- 3) new_PhysicsWorld) = 10"
  using setMaxObjects_cap [of 250 new_PhysicsWorld] setMaxObjects_cap [of "- 3" new_PhysicsWorld]
  by simp

end
